theory Spec2Isabelle
  imports Complex_Main
begin

section \<open>HyperTrack: wallet tracker, follow decision engine, order execution\<close>

text \<open>
  A shallow embedding of \<^verbatim>\<open>core/events.py\<close>, \<^verbatim>\<open>core/hyperliquid_tracker.py\<close>,
  \<^verbatim>\<open>core/lighter_trader.py\<close>, \<^verbatim>\<open>core/strategy_engine.py\<close> and the position and wallet
  operations of \<^verbatim>\<open>database/db_manager.py\<close>.

  Conventions of the embedding:
  \<^item> Python's \<^verbatim>\<open>Decimal\<close> values are rationals (\<^typ>\<open>rat\<close>): comparison, sign, absolute
    value, addition and multiplication of the decimals held here are exact, and a
    quotient is the exact quotient (the decimal context rounds it to 28 significant
    digits; that rounding is not modelled).  A numeric string received from a venue is
    modelled by the number it denotes.
  \<^item> An exception is a value \<^verbatim>\<open>Exception msg\<close> where \<^verbatim>\<open>msg\<close> is what \<^verbatim>\<open>str(e)\<close> gives, and a
    function that can raise returns a sum with the exception on the left.
  \<^item> Strings are lists of 8-bit characters; \<^verbatim>\<open>upper\<close> and \<^verbatim>\<open>lower\<close> change the letters a-z
    and A-Z only.  The message literals of the source are Chinese; they are rendered in
    English here, with the same interpolated values at the same places.
  \<^item> Log calls are omitted.
\<close>

subsection \<open>Events (\<^verbatim>\<open>core/events.py\<close>)\<close>

datatype EventType = OPEN | CLOSE | INCREASE | DECREASE | FLIP | UNKNOWN

datatype Side = LONG | SHORT

text \<open>
  The \<^verbatim>\<open>position\<close> dictionary of one asset position as the tracked venue returns it.
  What the dictionary holds under a key is read with \<^verbatim>\<open>Decimal(str(d.get(key, "0")))\<close>: the
  key can be absent (the default \<^verbatim>\<open>"0"\<close> is read), present with \<^verbatim>\<open>None\<close> (then \<^verbatim>\<open>Decimal("None")\<close>
  raises \<^verbatim>\<open>InvalidOperation\<close>), or present with the text of a number.
\<close>

datatype field = Absent | Null | Number rat

record position_data =
  coin :: string
  szi :: field
  entryPx :: field

text \<open>\<^verbatim>\<open>PositionEvent\<close>; the \<^verbatim>\<open>timestamp\<close> field (the wall clock at creation) is left out.\<close>

record PositionEvent =
  event_type :: EventType
  symbol :: string
  side :: Side
  size_ev :: rat
  price :: rat
  wallet_address :: string
  raw_data :: "position_data option"

subsection \<open>Tracker: classification of a position change (\<^verbatim>\<open>core/hyperliquid_tracker.py\<close>)\<close>

definition determine_event_type :: "rat \<Rightarrow> rat \<Rightarrow> EventType" where
  "determine_event_type old_size new_size =
     (if old_size = 0 \<and> new_size \<noteq> 0 then OPEN
      else if old_size \<noteq> 0 \<and> new_size = 0 then CLOSE
      else if (old_size > 0 \<and> new_size < 0) \<or> (old_size < 0 \<and> new_size > 0) then FLIP
      else if \<bar>new_size\<bar> > \<bar>old_size\<bar> then INCREASE
      else if \<bar>new_size\<bar> < \<bar>old_size\<bar> then DECREASE
      else UNKNOWN)"

datatype exn = Exception string

fun str_exn :: "exn \<Rightarrow> string" where
  "str_exn (Exception msg) = msg"

text \<open>\<^verbatim>\<open>Decimal(str(pos.get(key, "0"))) if pos else Decimal("0")\<close>\<close>

definition decimal_field :: "(position_data \<Rightarrow> field) \<Rightarrow> position_data option \<Rightarrow> exn + rat" where
  "decimal_field key pos =
     (case pos of
        None \<Rightarrow> Inr 0
      | Some d \<Rightarrow>
          (case key d of
             Absent \<Rightarrow> Inr 0
           | Null \<Rightarrow> Inl (Exception ''InvalidOperation'')
           | Number v \<Rightarrow> Inr v))"

text \<open>
  \<^verbatim>\<open>_compare_position\<close>.  The two sizes are read first; the entry price is read only
  when the sizes differ.
\<close>

definition compare_position ::
  "string \<Rightarrow> position_data option \<Rightarrow> position_data option \<Rightarrow> string \<Rightarrow> exn + PositionEvent option" where
  "compare_position sy old_pos new_pos wallet =
     (case decimal_field szi old_pos of
        Inl e \<Rightarrow> Inl e
      | Inr old_size \<Rightarrow>
          (case decimal_field szi new_pos of
             Inl e \<Rightarrow> Inl e
           | Inr new_size \<Rightarrow>
               if old_size = new_size then Inr None
               else
                 (case decimal_field entryPx new_pos of
                    Inl e \<Rightarrow> Inl e
                  | Inr new_entry_price \<Rightarrow>
                      (let sd = (if new_size > 0 then LONG
                                 else if new_size < 0 then SHORT
                                 else (if old_size > 0 then LONG else SHORT));
                           ty = determine_event_type old_size new_size
                       in Inr (Some \<lparr>event_type = ty, symbol = sy, side = sd,
                                       size_ev = \<bar>new_size\<bar>, price = new_entry_price,
                                       wallet_address = wallet, raw_data = new_pos\<rparr>)))))"





subsection \<open>Strings, exceptions and results\<close>

definition lowercase_letters :: string where
  "lowercase_letters = ''abcdefghijklmnopqrstuvwxyz''"

definition uppercase_letters :: string where
  "uppercase_letters = ''ABCDEFGHIJKLMNOPQRSTUVWXYZ''"

definition upper_char :: "char \<Rightarrow> char" where
  "upper_char c =
     (case map_of (zip lowercase_letters uppercase_letters) c of None \<Rightarrow> c | Some u \<Rightarrow> u)"

definition lower_char :: "char \<Rightarrow> char" where
  "lower_char c =
     (case map_of (zip uppercase_letters lowercase_letters) c of None \<Rightarrow> c | Some l \<Rightarrow> l)"

definition upper :: "string \<Rightarrow> string" where
  "upper s = map upper_char s"

definition lower :: "string \<Rightarrow> string" where
  "lower s = map lower_char s"

text \<open>\<^verbatim>\<open>s.replace(old, "")\<close>: every occurrence of \<^verbatim>\<open>old\<close>, left to right, is removed.\<close>

function remove_all :: "string \<Rightarrow> string \<Rightarrow> string" where
  "remove_all old [] = []"
| "remove_all old (c # cs) =
     (if old \<noteq> [] \<and> take (length old) (c # cs) = old
      then remove_all old (drop (length old) (c # cs))
      else c # remove_all old cs)"
  by pat_completeness auto
termination
  by (relation "measure (\<lambda>(old, s). length s)") auto

text \<open>\<^verbatim>\<open>str(n)\<close> for an integer.\<close>

fun string_of_nat :: "nat \<Rightarrow> string" where
  "string_of_nat n =
     (if n < 10 then [''0123456789'' ! n]
      else string_of_nat (n div 10) @ [''0123456789'' ! (n mod 10)])"

definition string_of_int :: "int \<Rightarrow> string" where
  "string_of_int i = (if i < 0 then CHR ''-'' # string_of_nat (nat (- i)) else string_of_nat (nat i))"

text \<open>
  \<^verbatim>\<open>Decimal(s)\<close> for the strings the price parser builds: a non-empty string of decimal
  digits is the number it writes; every other string is taken to be rejected with
  \<^verbatim>\<open>InvalidOperation\<close> (signs, exponents and the special values are not modelled).
\<close>

definition digit_of :: "char \<Rightarrow> nat option" where
  "digit_of c = map_of (zip ''0123456789'' [0, 1, 2, 3, 4, 5, 6, 7, 8, 9]) c"

fun digits_value :: "nat \<Rightarrow> string \<Rightarrow> nat option" where
  "digits_value acc [] = Some acc"
| "digits_value acc (c # cs) =
     (case digit_of c of None \<Rightarrow> None | Some d \<Rightarrow> digits_value (10 * acc + d) cs)"

definition Decimal :: "string \<Rightarrow> exn + rat" where
  "Decimal s =
     (if s = [] then Inl (Exception ''InvalidOperation'')
      else case digits_value 0 s of
             None \<Rightarrow> Inl (Exception ''InvalidOperation'')
           | Some n \<Rightarrow> Inr (of_nat n))"

text \<open>\<^verbatim>\<open>int(d)\<close> for a decimal: truncation towards zero.\<close>

definition int_of_decimal :: "rat \<Rightarrow> int" where
  "int_of_decimal q = (if q \<ge> 0 then \<lfloor>q\<rfloor> else \<lceil>q\<rceil>)"

text \<open>
  Computations that read and change a state and may raise: the state after the
  computation is returned in both cases, since whatever was done before a \<^verbatim>\<open>raise\<close>
  stays done.
\<close>

type_synonym ('a, 's) action = "'s \<Rightarrow> (exn + 'a) \<times> 's"

definition return :: "'a \<Rightarrow> ('a, 's) action" where
  "return x s = (Inr x, s)"

definition raise :: "exn \<Rightarrow> ('a, 's) action" where
  "raise e s = (Inl e, s)"

definition bind :: "('a, 's) action \<Rightarrow> ('a \<Rightarrow> ('b, 's) action) \<Rightarrow> ('b, 's) action" where
  "bind m f s = (case m s of (Inl e, s1) \<Rightarrow> (Inl e, s1) | (Inr x, s1) \<Rightarrow> f x s1)"

text \<open>\<^verbatim>\<open>try: m  except Exception as e: h(e)\<close>\<close>

definition catch :: "('a, 's) action \<Rightarrow> (exn \<Rightarrow> ('a, 's) action) \<Rightarrow> ('a, 's) action" where
  "catch m h s = (case m s of (Inl e, s1) \<Rightarrow> h e s1 | (Inr x, s1) \<Rightarrow> (Inr x, s1))"

text \<open>The same where the handler returns a value: the whole never raises.\<close>

definition catch_all :: "('a, 's) action \<Rightarrow> (exn \<Rightarrow> 'a) \<Rightarrow> 's \<Rightarrow> 'a \<times> 's" where
  "catch_all m h s = (case m s of (Inl e, s1) \<Rightarrow> (h e, s1) | (Inr x, s1) \<Rightarrow> (x, s1))"

subsection \<open>Trade execution client (\<^verbatim>\<open>core/lighter_trader.py\<close>)\<close>

datatype OrderSide = BUY | SELL

record AccountInfo =
  info_account_index :: int
  collateral :: rat
  available_balance :: rat
  total_position_value :: rat
  info_unrealized_pnl :: rat

record Position =
  market_index :: int
  pos_symbol :: string
  pos_side :: string
  pos_size :: rat
  entry_price :: rat
  position_value :: rat
  unrealized_pnl :: rat

record OrderResult =
  success :: bool
  order_id :: "string option"
  tx_hash :: "string option"
  error :: "string option"

text \<open>
  What the venue's SDK returns.  A field that is \<^verbatim>\<open>None\<close> (or empty, for a string the
  code tests for truth) is \<^term>\<open>None\<close>.
\<close>

record api_position =
  api_market_index :: "int option"
  api_position :: "rat option"
  api_sign :: "int option"
  api_avg_entry_price :: "rat option"
  api_position_value :: "rat option"
  api_unrealized_pn_l :: "rat option"

record api_account =
  api_collateral :: "rat option"
  api_positions :: "api_position list"

record api_order_book =
  bids :: "string list"
  asks :: "string list"

record api_response =
  code :: int
  resp_tx_hash :: "string option"
  resp_repr :: string

record api_order_reply =
  reply_response :: "api_response option"
  reply_error :: "string option"

record market_order_request =
  req_market_index :: int
  req_client_order_index :: int
  req_base_amount :: int
  req_avg_execution_price :: int
  req_is_ask :: bool
  req_reduce_only :: bool

datatype request =
    AccountQuery int
  | OrderBookQuery int
  | CreateMarketOrder market_order_request

text \<open>
  The state of a \<^verbatim>\<open>LighterTrader\<close> together with the venue it talks to.  The venue is an
  oracle: \<^verbatim>\<open>account_api k\<close>, \<^verbatim>\<open>order_api k\<close> and \<^verbatim>\<open>signer_api k\<close> give what the remote call
  returns or raises when it is the \<open>k\<close>-th remote call made (counting from 0);
  \<^verbatim>\<open>requests\<close> logs the calls made, oldest first, and \<^verbatim>\<open>sleeps\<close> the delays slept.
  \<^verbatim>\<open>signer_client\<close> tells whether the signer has been created, and \<^verbatim>\<open>signer_init\<close> what its
  constructor raises, if anything.  An account result of \<^term>\<open>None\<close> stands for a
  result without accounts.
\<close>

record LighterTrader =
  account_index :: int
  max_retries :: int
  retry_delay :: rat
  order_counter :: int
  signer_client :: bool
  signer_init :: "exn option"
  account_api :: "nat \<Rightarrow> exn + api_account list option"
  order_api :: "nat \<Rightarrow> int \<Rightarrow> exn + api_order_book option"
  signer_api :: "nat \<Rightarrow> market_order_request \<Rightarrow> exn + api_order_reply"
  requests :: "request list"
  sleeps :: "rat list"

definition MARKET_INDEX :: "(string \<times> int) list" where
  "MARKET_INDEX = [(''BTC'', 0), (''ETH'', 1)]"

definition default_max_retries :: int where
  "default_max_retries = 5"

definition default_retry_delay :: rat where
  "default_retry_delay = 3"

definition generate_client_order_index :: "LighterTrader \<Rightarrow> int \<times> LighterTrader" where
  "generate_client_order_index s =
     (order_counter s + 1, s\<lparr>order_counter := order_counter s + 1\<rparr>)"

definition get_signer_client :: "(unit, LighterTrader) action" where
  "get_signer_client s =
     (if \<not> signer_client s then
        (case signer_init s of
           Some e \<Rightarrow> (Inl e, s)
         | None \<Rightarrow> (Inr (), s\<lparr>signer_client := True\<rparr>))
      else (Inr (), s))"

definition sleep :: "rat \<Rightarrow> LighterTrader \<Rightarrow> LighterTrader" where
  "sleep d s = s\<lparr>sleeps := sleeps s @ [d]\<rparr>"

text \<open>
  \<^verbatim>\<open>_retry_operation\<close>.  The loop \<^verbatim>\<open>for attempt in range(1, self.max_retries + 1)\<close> runs its
  body \<^verbatim>\<open>nat max_retries\<close> times at most; \<^verbatim>\<open>retry_attempts\<close> is the loop with the number of
  iterations left, the value of \<^verbatim>\<open>attempt\<close> and \<^verbatim>\<open>last_error\<close>.  After the loop
  \<^verbatim>\<open>raise last_error\<close> raises the last exception, or a \<^verbatim>\<open>TypeError\<close> when \<^verbatim>\<open>last_error\<close> is
  still \<^verbatim>\<open>None\<close>.
\<close>

definition raise_last_error :: "exn option \<Rightarrow> exn" where
  "raise_last_error last_error =
     (case last_error of
        None \<Rightarrow> Exception ''exceptions must derive from BaseException''
      | Some e \<Rightarrow> e)"

fun retry_attempts ::
  "('a, LighterTrader) action \<Rightarrow> nat \<Rightarrow> int \<Rightarrow> exn option \<Rightarrow> ('a, LighterTrader) action" where
  "retry_attempts operation 0 attempt last_error s = (Inl (raise_last_error last_error), s)"
| "retry_attempts operation (Suc k) attempt last_error s =
     (case operation s of
        (Inr r, s1) \<Rightarrow> (Inr r, s1)
      | (Inl e, s1) \<Rightarrow>
          retry_attempts operation k (attempt + 1) (Some e)
            (if attempt < max_retries s1 then sleep (retry_delay s1) s1 else s1))"

definition retry_operation :: "('a, LighterTrader) action \<Rightarrow> ('a, LighterTrader) action" where
  "retry_operation operation s = retry_attempts operation (nat (max_retries s)) 1 None s"

text \<open>
  A remote call: its outcome is the oracle's at the number of calls made so far, and the
  call is logged.  The three calls the trader wraps in \<^verbatim>\<open>_retry_operation\<close> follow.
\<close>

definition remote_call :: "(nat \<Rightarrow> exn + 'a) \<Rightarrow> request \<Rightarrow> ('a, LighterTrader) action" where
  "remote_call outcome rq s = (outcome (length (requests s)), s\<lparr>requests := requests s @ [rq]\<rparr>)"

definition account_query :: "(api_account list option, LighterTrader) action" where
  "account_query s = remote_call (account_api s) (AccountQuery (account_index s)) s"

definition order_book_orders :: "int \<Rightarrow> (api_order_book option, LighterTrader) action" where
  "order_book_orders mi s = remote_call (\<lambda>k. order_api s k mi) (OrderBookQuery mi) s"

definition create_market_order :: "market_order_request \<Rightarrow> (api_order_reply, LighterTrader) action" where
  "create_market_order rq s = remote_call (\<lambda>k. signer_api s k rq) (CreateMarketOrder rq) s"

text \<open>The orders sent to the venue so far.\<close>

fun orders_submitted_in :: "request list \<Rightarrow> market_order_request list" where
  "orders_submitted_in [] = []"
| "orders_submitted_in (CreateMarketOrder rq # rs) = rq # orders_submitted_in rs"
| "orders_submitted_in (r # rs) = orders_submitted_in rs"

definition orders_submitted :: "LighterTrader \<Rightarrow> market_order_request list" where
  "orders_submitted s = orders_submitted_in (requests s)"

definition or_zero :: "rat option \<Rightarrow> rat" where
  "or_zero v = (case v of None \<Rightarrow> 0 | Some x \<Rightarrow> x)"

definition get_account_info :: "LighterTrader \<Rightarrow> AccountInfo option \<times> LighterTrader" where
  "get_account_info s =
     (case retry_operation account_query s of
        (Inl e, s1) \<Rightarrow> (None, s1)
      | (Inr result, s1) \<Rightarrow>
          (case result of
             Some (account # rest) \<Rightarrow>
               (let coll = or_zero (api_collateral account);
                    total = sum_list (map (\<lambda>pos. or_zero (api_position_value pos)) (api_positions account));
                    pnl = sum_list (map (\<lambda>pos. or_zero (api_unrealized_pn_l pos)) (api_positions account))
                in (Some \<lparr>info_account_index = account_index s1, collateral = coll,
                          available_balance = coll + pnl, total_position_value = total,
                          info_unrealized_pnl = pnl\<rparr>, s1))
           | _ \<Rightarrow> (None, s1)))"

definition get_balance :: "LighterTrader \<Rightarrow> rat \<times> LighterTrader" where
  "get_balance s =
     (case get_account_info s of
        (Some account_info, s1) \<Rightarrow> (available_balance account_info, s1)
      | (None, s1) \<Rightarrow> (0, s1))"

definition get_symbol_by_market_index :: "int \<Rightarrow> string" where
  "get_symbol_by_market_index mi =
     (case find (\<lambda>(sy, index). index = mi) MARKET_INDEX of
        Some (sy, index) \<Rightarrow> sy
      | None \<Rightarrow> ''UNKNOWN_'' @ string_of_int mi)"

definition position_of_api :: "api_position \<Rightarrow> Position" where
  "position_of_api pos =
     (let mi = (case api_market_index pos of None \<Rightarrow> 0 | Some i \<Rightarrow> i);
          sign = (case api_sign pos of None \<Rightarrow> 0 | Some i \<Rightarrow> i)
      in \<lparr>market_index = mi,
          pos_symbol = get_symbol_by_market_index mi,
          pos_side = (if sign > 0 then ''LONG'' else ''SHORT''),
          pos_size = \<bar>or_zero (api_position pos)\<bar>,
          entry_price = or_zero (api_avg_entry_price pos),
          position_value = or_zero (api_position_value pos),
          unrealized_pnl = or_zero (api_unrealized_pn_l pos)\<rparr>)"

definition get_positions :: "LighterTrader \<Rightarrow> Position list \<times> LighterTrader" where
  "get_positions s =
     (case retry_operation account_query s of
        (Inl e, s1) \<Rightarrow> ([], s1)
      | (Inr result, s1) \<Rightarrow>
          (case result of
             Some (account # rest) \<Rightarrow>
               (map position_of_api
                  (filter (\<lambda>pos. or_zero (api_position pos) \<noteq> 0) (api_positions account)), s1)
           | _ \<Rightarrow> ([], s1)))"

definition clean_symbol :: "string \<Rightarrow> string" where
  "clean_symbol sy = remove_all ''-USD'' (remove_all ''/USDC'' (remove_all ''-PERP'' (upper sy)))"

definition get_market_index :: "string \<Rightarrow> exn + int" where
  "get_market_index sy =
     (case map_of MARKET_INDEX (clean_symbol sy) of
        Some index \<Rightarrow> Inr index
      | None \<Rightarrow> Inl (Exception (''unknown symbol: '' @ sy)))"

text \<open>
  \<^verbatim>\<open>Decimal(str(levels[0].price).replace(".", "")) if levels else None\<close>; the flag says
  whether the value counts as true (it is neither \<^verbatim>\<open>None\<close> nor zero).
\<close>

definition best_price :: "string list \<Rightarrow> exn + rat option" where
  "best_price levels =
     (case levels of
        [] \<Rightarrow> Inr None
      | p # rest \<Rightarrow> (case Decimal (remove_all ''.'' p) of Inl e \<Rightarrow> Inl e | Inr v \<Rightarrow> Inr (Some v)))"

definition truthy :: "rat option \<Rightarrow> bool" where
  "truthy v = (case v of None \<Rightarrow> False | Some x \<Rightarrow> x \<noteq> 0)"

definition get_market_price :: "string \<Rightarrow> LighterTrader \<Rightarrow> rat option \<times> LighterTrader" where
  "get_market_price sy s =
     (case get_market_index sy of
        Inl e \<Rightarrow> (None, s)
      | Inr mi \<Rightarrow>
          (case retry_operation (order_book_orders mi) s of
             (Inl e, s1) \<Rightarrow> (None, s1)
           | (Inr None, s1) \<Rightarrow> (None, s1)
           | (Inr (Some orderbook), s1) \<Rightarrow>
               (case best_price (bids orderbook) of
                  Inl e \<Rightarrow> (None, s1)
                | Inr best_bid \<Rightarrow>
                    (case best_price (asks orderbook) of
                       Inl e \<Rightarrow> (None, s1)
                     | Inr best_ask \<Rightarrow>
                         (if truthy best_bid \<and> truthy best_ask
                          then (Some ((the best_bid + the best_ask) / 2), s1)
                          else if truthy best_bid then (best_bid, s1)
                          else if truthy best_ask then (best_ask, s1)
                          else (None, s1))))))"

definition failed_order :: "string \<Rightarrow> OrderResult" where
  "failed_order msg = \<lparr>success = False, order_id = None, tx_hash = None, error = Some msg\<rparr>"

text \<open>
  \<^verbatim>\<open>place_market_order\<close>.  \<^verbatim>\<open>max_slippage\<close> is a float in the source and the factor is
  \<^verbatim>\<open>Decimal(str(1 - max_slippage))\<close>; here it is the rational \<open>1 - max_slippage\<close> (for the
  default 0.01 the two agree: 0.99 and 1.01).
\<close>

definition place_market_order ::
  "string \<Rightarrow> OrderSide \<Rightarrow> rat \<Rightarrow> bool \<Rightarrow> rat \<Rightarrow> LighterTrader \<Rightarrow> OrderResult \<times> LighterTrader" where
  "place_market_order sy sd sz reduce_only max_slippage s =
     (case get_market_index sy of
        Inl e \<Rightarrow> (failed_order (str_exn e), s)
      | Inr mi \<Rightarrow>
          (let (client_order_index, s1) = generate_client_order_index s;
               base_amount = int_of_decimal (sz * 100000000);
               (current_price, s2) = get_market_price sy s1
           in case current_price of
                None \<Rightarrow> (failed_order ''cannot get the current price'', s2)
              | Some cp \<Rightarrow>
                  (let is_ask = (sd = SELL);
                       execution_price =
                         (if is_ask then int_of_decimal (cp * (1 - max_slippage))
                          else int_of_decimal (cp * (1 + max_slippage)))
                   in case get_signer_client s2 of
                        (Inl e, s3) \<Rightarrow> (failed_order (str_exn e), s3)
                      | (Inr u, s3) \<Rightarrow>
                          (case retry_operation
                                  (create_market_order
                                     \<lparr>req_market_index = mi,
                                      req_client_order_index = client_order_index,
                                      req_base_amount = base_amount,
                                      req_avg_execution_price = execution_price,
                                      req_is_ask = is_ask,
                                      req_reduce_only = reduce_only\<rparr>) s3 of
                             (Inl e, s4) \<Rightarrow> (failed_order (str_exn e), s4)
                           | (Inr reply, s4) \<Rightarrow>
                               (if reply_error reply \<noteq> None \<and> reply_error reply \<noteq> Some []
                                then (\<lparr>success = False, order_id = None, tx_hash = None,
                                       error = reply_error reply\<rparr>, s4)
                                else case reply_response reply of
                                       Some response \<Rightarrow>
                                         (if code response = 200
                                          then (\<lparr>success = True,
                                                 order_id = Some (string_of_int client_order_index),
                                                 tx_hash = resp_tx_hash response,
                                                 error = None\<rparr>, s4)
                                          else (failed_order (''abnormal order response: '' @ resp_repr response), s4))
                                     | None \<Rightarrow>
                                         (failed_order (''abnormal order response: '' @ ''None''), s4))))))"

definition default_max_slippage :: rat where
  "default_max_slippage = 1 / 100"

definition close_position :: "string \<Rightarrow> LighterTrader \<Rightarrow> OrderResult \<times> LighterTrader" where
  "close_position sy s =
     (let (positions, s1) = get_positions s
      in case find (\<lambda>pos. upper (pos_symbol pos) = upper sy) positions of
           None \<Rightarrow> (\<lparr>success = True, order_id = None, tx_hash = None, error = None\<rparr>, s1)
         | Some target_position \<Rightarrow>
             place_market_order sy
               (if pos_side target_position = ''LONG'' then SELL else BUY)
               (pos_size target_position) True default_max_slippage s1)"

subsection \<open>Store (\<^verbatim>\<open>database/db_manager.py\<close>)\<close>

record wallet_row =
  address :: string
  enabled :: bool
  max_position_usd :: "rat option"

record position_row =
  row_symbol :: string
  row_side :: string
  row_size :: rat
  row_entry_price :: rat
  source_wallet :: string

text \<open>
  The two tables, in the order the database returns their rows, and an oracle for the
  failures of the database: \<^verbatim>\<open>db_fault k\<close> is what the \<open>k\<close>-th operation on the store
  raises (connection or statement error), if anything.  Every method of the source logs
  such an exception and raises it again.
\<close>

record DatabaseManager =
  wallets :: "wallet_row list"
  positions :: "position_row list"
  db_fault :: "nat \<Rightarrow> exn option"
  db_calls :: nat

definition db_execute :: "(DatabaseManager \<Rightarrow> 'a \<times> DatabaseManager) \<Rightarrow> ('a, DatabaseManager) action" where
  "db_execute statement d =
     (let d1 = d\<lparr>db_calls := Suc (db_calls d)\<rparr>
      in case db_fault d (db_calls d) of
           Some e \<Rightarrow> (Inl e, d1)
         | None \<Rightarrow> (case statement d1 of (x, d2) \<Rightarrow> (Inr x, d2)))"

definition get_wallet :: "string \<Rightarrow> (wallet_row option, DatabaseManager) action" where
  "get_wallet addr =
     db_execute (\<lambda>d. (find (\<lambda>w. address w = lower addr) (wallets d), d))"

definition get_position :: "string \<Rightarrow> (position_row option, DatabaseManager) action" where
  "get_position sy =
     db_execute (\<lambda>d. (find (\<lambda>p. row_symbol p = upper sy) (positions d), d))"

text \<open>
  \<^verbatim>\<open>add_position(symbol, side, size, entry_price, source_wallet)\<close>: insert, or update the
  row with the same symbol and source wallet (the conflict target of the statement).
\<close>

definition add_position ::
  "string \<Rightarrow> string \<Rightarrow> rat \<Rightarrow> rat \<Rightarrow> string \<Rightarrow> (position_row, DatabaseManager) action" where
  "add_position sy sd sz px src =
     db_execute (\<lambda>d.
       let row = \<lparr>row_symbol = upper sy, row_side = upper sd, row_size = sz,
                  row_entry_price = px, source_wallet = lower src\<rparr>;
           same = (\<lambda>p. row_symbol p = upper sy \<and> source_wallet p = lower src)
       in if list_ex same (positions d)
          then (row, d\<lparr>positions := map (\<lambda>p. if same p then row else p) (positions d)\<rparr>)
          else (row, d\<lparr>positions := positions d @ [row]\<rparr>))"

text \<open>
  The engine calls \<^verbatim>\<open>add_position(position_data)\<close>, with one dictionary where the method
  has five required parameters: Python raises \<^verbatim>\<open>TypeError\<close> at the call, before the body
  of the method runs, so no statement reaches the database.
\<close>

definition add_position_one_argument :: "position_row \<Rightarrow> (position_row, DatabaseManager) action" where
  "add_position_one_argument position_data =
     raise (Exception ''add_position() missing 4 required positional arguments'')"

definition remove_position :: "string \<Rightarrow> string \<Rightarrow> (bool, DatabaseManager) action" where
  "remove_position sy src =
     db_execute (\<lambda>d.
       let kept = filter (\<lambda>p. \<not> (row_symbol p = upper sy \<and> source_wallet p = lower src)) (positions d)
       in (length kept < length (positions d), d\<lparr>positions := kept\<rparr>))"

subsection \<open>Follow decision engine (\<^verbatim>\<open>core/strategy_engine.py\<close>)\<close>

datatype FollowDecision = FOLLOW | SKIP | REJECT | ERROR

record FollowResult =
  decision :: FollowDecision
  reason :: string
  follow_size :: "rat option"
  follow_side :: "OrderSide option"
  order_result :: "OrderResult option"

text \<open>
  The engine is constructed with a trader object and calls five of its methods.  They
  are a parameter here too: operations on a trader state \<^typ>\<open>'v\<close> that return or raise.
  \<^verbatim>\<open>place_market_order\<close> is called with symbol, side and size only.
\<close>

record 'v trader =
  t_get_balance :: "(rat, 'v) action"
  t_get_positions :: "(Position list, 'v) action"
  t_get_market_price :: "string \<Rightarrow> (rat option, 'v) action"
  t_place_market_order :: "string \<Rightarrow> OrderSide \<Rightarrow> rat \<Rightarrow> (OrderResult, 'v) action"
  t_close_position :: "string \<Rightarrow> (OrderResult, 'v) action"

definition never_raises :: "('s \<Rightarrow> 'a \<times> 's) \<Rightarrow> ('a, 's) action" where
  "never_raises f s = (case f s of (x, s1) \<Rightarrow> (Inr x, s1))"

text \<open>The trader of the repository: every method of \<^verbatim>\<open>LighterTrader\<close> catches what it raises.\<close>

definition lighter :: "LighterTrader trader" where
  "lighter =
     \<lparr>t_get_balance = never_raises get_balance,
      t_get_positions = never_raises get_positions,
      t_get_market_price = (\<lambda>sy. never_raises (get_market_price sy)),
      t_place_market_order =
        (\<lambda>sy sd sz. never_raises (place_market_order sy sd sz False default_max_slippage)),
      t_close_position = (\<lambda>sy. never_raises (close_position sy))\<rparr>"

text \<open>
  The engine's state: the store, the trader's state, the cached balance, and the wall
  clock as the sequence of values that successive calls of \<^verbatim>\<open>time.time()\<close> return (floats
  in the source, rationals here).
\<close>

record 'v StrategyEngine =
  db_manager :: DatabaseManager
  lighter_trader :: 'v
  default_max_position_usd :: rat
  my_balance :: rat
  balance_updated_at :: rat
  balance_cache_seconds :: rat
  clock :: "nat \<Rightarrow> rat"
  clock_reads :: nat

definition on_db :: "('a, DatabaseManager) action \<Rightarrow> ('a, 'v StrategyEngine) action" where
  "on_db m w = (case m (db_manager w) of (r, d) \<Rightarrow> (r, w\<lparr>db_manager := d\<rparr>))"

definition on_trader :: "('a, 'v) action \<Rightarrow> ('a, 'v StrategyEngine) action" where
  "on_trader m w = (case m (lighter_trader w) of (r, v) \<Rightarrow> (r, w\<lparr>lighter_trader := v\<rparr>))"

definition time_time :: "'v StrategyEngine \<Rightarrow> rat \<times> 'v StrategyEngine" where
  "time_time w = (clock w (clock_reads w), w\<lparr>clock_reads := Suc (clock_reads w)\<rparr>)"

definition get_my_balance :: "'v trader \<Rightarrow> 'v StrategyEngine \<Rightarrow> rat \<times> 'v StrategyEngine" where
  "get_my_balance tr w =
     (let (current_time, w1) = time_time w
      in if current_time - balance_updated_at w1 > balance_cache_seconds w1
         then (case on_trader (t_get_balance tr) w1 of
                 (Inr b, w2) \<Rightarrow> (b, w2\<lparr>my_balance := b, balance_updated_at := current_time\<rparr>)
               | (Inl e, w2) \<Rightarrow> (my_balance w2, w2))
         else (my_balance w1, w1))"

definition check_position_lock :: "string \<Rightarrow> string \<Rightarrow> (bool \<times> string, 'v StrategyEngine) action" where
  "check_position_lock sy addr =
     bind (on_db (get_position sy)) (\<lambda>existing_position.
       case existing_position of
         None \<Rightarrow> return (False, [])
       | Some row \<Rightarrow>
           (let src = lower (source_wallet row)
            in if src = lower addr then return (False, [])
               else return (True, sy @ '' is locked by another wallet: '' @ take 10 src @ ''...'')))"

definition should_follow :: "'v trader \<Rightarrow> PositionEvent \<Rightarrow> (bool \<times> string, 'v StrategyEngine) action" where
  "should_follow tr event =
     bind (on_db (get_wallet (wallet_address event))) (\<lambda>wallet.
       case wallet of
         None \<Rightarrow>
           return (False, ''wallet is not in the tracking list: '' @ take 10 (wallet_address event) @ ''...'')
       | Some wl \<Rightarrow>
           if \<not> enabled wl
           then return (False, ''wallet is disabled: '' @ take 10 (wallet_address event) @ ''...'')
           else
             bind (check_position_lock (symbol event) (wallet_address event)) (\<lambda>(is_locked, lock_reason).
               if is_locked then return (False, lock_reason)
               else
                 bind (never_raises (get_my_balance tr)) (\<lambda>balance.
                   if balance \<le> 0 then return (False, ''insufficient balance'')
                   else if event_type event = UNKNOWN then return (False, ''unknown event type'')
                   else return (True, ''OK''))))"

definition position_ratio :: rat where
  "position_ratio = 1 / 10"

definition calculate_follow_size :: "'v trader \<Rightarrow> PositionEvent \<Rightarrow> (rat, 'v StrategyEngine) action" where
  "calculate_follow_size tr event =
     bind (never_raises (get_my_balance tr)) (\<lambda>balance.
       if balance \<le> 0 then return 0
       else
         bind (on_db (get_wallet (wallet_address event))) (\<lambda>wallet.
           case wallet of
             None \<Rightarrow> raise (Exception ''NoneType object has no attribute get'')
           | Some wl \<Rightarrow>
               (\<lambda>w. let cap = (case max_position_usd wl of
                                 None \<Rightarrow> default_max_position_usd w
                               | Some v \<Rightarrow> if v = 0 then default_max_position_usd w else v);
                        follow_usd = balance * position_ratio
                    in return (if follow_usd > cap then cap else follow_usd) w)))"

definition calculate_open_params ::
  "'v trader \<Rightarrow> PositionEvent \<Rightarrow> (rat \<times> OrderSide, 'v StrategyEngine) action" where
  "calculate_open_params tr event =
     bind (calculate_follow_size tr event) (\<lambda>follow_usd.
       if follow_usd \<le> 0 then return (0, BUY)
       else
         bind (on_trader (t_get_market_price tr (symbol event))) (\<lambda>px.
           case px of
             None \<Rightarrow> return (0, BUY)
           | Some p \<Rightarrow>
               if p \<le> 0 then return (0, BUY)
               else return (follow_usd / p, if side event = LONG then BUY else SELL)))"

definition calculate_increase_params ::
  "'v trader \<Rightarrow> PositionEvent \<Rightarrow> (rat \<times> OrderSide, 'v StrategyEngine) action" where
  "calculate_increase_params tr event = calculate_open_params tr event"

definition calculate_close_params ::
  "'v trader \<Rightarrow> PositionEvent \<Rightarrow> (rat \<times> OrderSide, 'v StrategyEngine) action" where
  "calculate_close_params tr event =
     bind (on_trader (t_get_positions tr)) (\<lambda>my_positions.
       case find (\<lambda>pos. upper (pos_symbol pos) = upper (symbol event)) my_positions of
         Some pos \<Rightarrow>
           if pos_side pos = ''LONG'' then return (pos_size pos, SELL)
           else return (pos_size pos, BUY)
       | None \<Rightarrow> return (0, BUY))"

definition calculate_decrease_params ::
  "'v trader \<Rightarrow> PositionEvent \<Rightarrow> (rat \<times> OrderSide, 'v StrategyEngine) action" where
  "calculate_decrease_params tr event =
     bind (on_trader (t_get_positions tr)) (\<lambda>my_positions.
       case find (\<lambda>pos. upper (pos_symbol pos) = upper (symbol event)) my_positions of
         Some pos \<Rightarrow>
           (let reduce_size = pos_size pos * (1 / 2)
            in if pos_side pos = ''LONG'' then return (reduce_size, SELL)
               else return (reduce_size, BUY))
       | None \<Rightarrow> return (0, BUY))"

definition calculate_flip_params ::
  "'v trader \<Rightarrow> PositionEvent \<Rightarrow> (rat \<times> OrderSide, 'v StrategyEngine) action" where
  "calculate_flip_params tr event = calculate_close_params tr event"

definition calculate_follow_params ::
  "'v trader \<Rightarrow> PositionEvent \<Rightarrow> (rat \<times> OrderSide, 'v StrategyEngine) action" where
  "calculate_follow_params tr event =
     (if event_type event = CLOSE then calculate_close_params tr event
      else if event_type event = OPEN then calculate_open_params tr event
      else if event_type event = INCREASE then calculate_increase_params tr event
      else if event_type event = DECREASE then calculate_decrease_params tr event
      else if event_type event = FLIP then calculate_flip_params tr event
      else return (0, BUY))"

text \<open>
  \<^verbatim>\<open>_update_position_in_db\<close>: whatever the store operation raises is logged and dropped.
  (\<^verbatim>\<open>float(size)\<close> and \<^verbatim>\<open>float(event.price)\<close> are kept as the rationals they round.)
\<close>

definition update_position_in_db ::
  "PositionEvent \<Rightarrow> rat \<Rightarrow> OrderSide \<Rightarrow> bool \<Rightarrow> 'v StrategyEngine \<Rightarrow> 'v StrategyEngine" where
  "update_position_in_db event sz sd is_close w =
     snd (catch
            (if is_close
             then bind (on_db (remove_position (symbol event) (wallet_address event))) (\<lambda>deleted. return ())
             else
               (let position_data =
                      \<lparr>row_symbol = symbol event,
                       row_side = (if sd = BUY then ''LONG'' else ''SHORT''),
                       row_size = sz,
                       row_entry_price = price event,
                       source_wallet = wallet_address event\<rparr>
                in bind (on_db (add_position_one_argument position_data)) (\<lambda>row. return ())))
            (\<lambda>e. return ()) w)"

definition str_optional :: "string option \<Rightarrow> string" where
  "str_optional v = (case v of None \<Rightarrow> ''None'' | Some t \<Rightarrow> t)"

definition execute_follow ::
  "'v trader \<Rightarrow> PositionEvent \<Rightarrow> rat \<Rightarrow> OrderSide \<Rightarrow> 'v StrategyEngine \<Rightarrow> FollowResult \<times> 'v StrategyEngine" where
  "execute_follow tr event sz sd =
     catch_all
       (let is_close = (event_type event = CLOSE \<or> event_type event = FLIP)
        in bind (if is_close then on_trader (t_close_position tr (symbol event))
                 else on_trader (t_place_market_order tr (symbol event) sd sz))
             (\<lambda>res.
                if success res
                then (\<lambda>w. (Inr \<lparr>decision = FOLLOW, reason = ''follow succeeded'',
                                follow_size = Some sz, follow_side = Some sd,
                                order_result = Some res\<rparr>,
                           update_position_in_db event sz sd is_close w))
                else return \<lparr>decision = ERROR,
                             reason = ''order failed: '' @ str_optional (error res),
                             follow_size = None, follow_side = None,
                             order_result = Some res\<rparr>))
       (\<lambda>e. \<lparr>decision = ERROR, reason = str_exn e, follow_size = None, follow_side = None,
             order_result = None\<rparr>)"

definition on_wallet_event ::
  "'v trader \<Rightarrow> PositionEvent \<Rightarrow> 'v StrategyEngine \<Rightarrow> FollowResult \<times> 'v StrategyEngine" where
  "on_wallet_event tr event =
     catch_all
       (bind (should_follow tr event) (\<lambda>(follow, why).
          if \<not> follow
          then return \<lparr>decision = SKIP, reason = why, follow_size = None, follow_side = None,
                       order_result = None\<rparr>
          else
            bind (calculate_follow_params tr event) (\<lambda>(sz, sd).
              if sz \<le> 0
              then return \<lparr>decision = SKIP, reason = ''follow size is 0 after calculation'',
                           follow_size = None, follow_side = None, order_result = None\<rparr>
              else never_raises (execute_follow tr event sz sd))))
       (\<lambda>e. \<lparr>decision = ERROR, reason = str_exn e, follow_size = None, follow_side = None,
             order_result = None\<rparr>)"

subsection \<open>Example states\<close>

text \<open>
  A venue whose account query always times out, with the default retry settings of
  \<^verbatim>\<open>LighterTrader\<close>; its order book for every market has one bid at 2999 and one ask at 3001,
  and it accepts every order.
\<close>

definition accepted :: api_order_reply where
  "accepted =
     \<lparr>reply_response = Some \<lparr>code = 200, resp_tx_hash = Some ''0xfeed'', resp_repr = ''ok''\<rparr>,
      reply_error = None\<rparr>"

definition venue_down :: LighterTrader where
  "venue_down =
     \<lparr>account_index = 7, max_retries = default_max_retries, retry_delay = default_retry_delay,
      order_counter = 1000, signer_client = False, signer_init = None,
      account_api = (\<lambda>k. Inl (Exception ''timeout'')),
      order_api = (\<lambda>k mi. Inr (Some \<lparr>bids = [''2999''], asks = [''3001'']\<rparr>)),
      signer_api = (\<lambda>k rq. Inr accepted),
      requests = [], sleeps = []\<rparr>"

text \<open>
  Two tracked, enabled wallets, the first with a per-wallet maximum of 500 USD; an empty
  positions table; a store that never fails.
\<close>

definition wallet_a :: string where
  "wallet_a = ''0xaaaa00000001''"

definition wallet_b :: string where
  "wallet_b = ''0xbbbb00000002''"

definition store0 :: DatabaseManager where
  "store0 =
     \<lparr>wallets = [\<lparr>address = wallet_a, enabled = True, max_position_usd = Some 500\<rparr>,
                 \<lparr>address = wallet_b, enabled = True, max_position_usd = None\<rparr>],
      positions = [], db_fault = (\<lambda>k. None), db_calls = 0\<rparr>"

text \<open>
  An engine as its constructor leaves it (no balance cached, default maximum 1000 USD),
  on a given store and trader state, with a clock that reads 1000.
\<close>

definition engine_on :: "DatabaseManager \<Rightarrow> 'v \<Rightarrow> 'v StrategyEngine" where
  "engine_on d v =
     \<lparr>db_manager = d, lighter_trader = v, default_max_position_usd = 1000,
      my_balance = 0, balance_updated_at = 0, balance_cache_seconds = 60,
      clock = (\<lambda>k. 1000), clock_reads = 0\<rparr>"

text \<open>
  A trader without state that answers every call with fixed values: a balance, a list of
  positions, a price, and the outcome of placing or closing.
\<close>

definition stub_trader :: "rat \<Rightarrow> Position list \<Rightarrow> rat option \<Rightarrow> exn + OrderResult \<Rightarrow> unit trader" where
  "stub_trader bal ps px outcome =
     \<lparr>t_get_balance = return bal,
      t_get_positions = return ps,
      t_get_market_price = (\<lambda>sy. return px),
      t_place_market_order = (\<lambda>sy sd sz s. (outcome, s)),
      t_close_position = (\<lambda>sy s. (outcome, s))\<rparr>"

definition eth_event :: "EventType \<Rightarrow> string \<Rightarrow> PositionEvent" where
  "eth_event ty addr =
     \<lparr>event_type = ty, symbol = ''ETH'', side = LONG, size_ev = 3, price = 3000,
      wallet_address = addr, raw_data = None\<rparr>"

definition eth_long :: "rat \<Rightarrow> Position" where
  "eth_long sz =
     \<lparr>market_index = 1, pos_symbol = ''ETH'', pos_side = ''LONG'', pos_size = sz,
      entry_price = 2900, position_value = 2900 * sz, unrealized_pnl = 0\<rparr>"

text \<open>
  A venue that answers: the account has a collateral of 10000 and holds 2 ETH long, the
  order book of every market has one bid at 2999.5 and one ask at 3000.5, and every order
  is accepted.
\<close>

definition venue_live :: LighterTrader where
  "venue_live =
     \<lparr>account_index = 7, max_retries = default_max_retries, retry_delay = default_retry_delay,
      order_counter = 1000, signer_client = False, signer_init = None,
      account_api = (\<lambda>k. Inr (Some [\<lparr>api_collateral = Some 10000,
                                        api_positions =
                                          [\<lparr>api_market_index = Some 1, api_position = Some 2,
                                            api_sign = Some 1, api_avg_entry_price = Some 2900,
                                            api_position_value = Some 5800,
                                            api_unrealized_pn_l = None\<rparr>]\<rparr>])),
      order_api = (\<lambda>k mi. Inr (Some \<lparr>bids = [''2999.5''], asks = [''3000.5'']\<rparr>)),
      signer_api = (\<lambda>k rq. Inr accepted),
      requests = [], sleeps = []\<rparr>"


text \<open>An engine on the failing venue that has cached a balance of 10000 at time 900.\<close>

definition engine_cached :: "LighterTrader StrategyEngine" where
  "engine_cached = (engine_on store0 venue_down)\<lparr>my_balance := 10000, balance_updated_at := 900\<rparr>"

text \<open>
  A successful order result; a wallet that is not tracked; the store after wallet
  \<^verbatim>\<open>wallet_a\<close> has taken ETH.
\<close>

definition filled :: OrderResult where
  "filled = \<lparr>success = True, order_id = Some ''1001'', tx_hash = Some ''0xfeed'', error = None\<rparr>"

definition wallet_c :: string where
  "wallet_c = ''0xcccc00000003''"

definition store_locked :: DatabaseManager where
  "store_locked =
     store0\<lparr>positions := [\<lparr>row_symbol = ''ETH'', row_side = ''LONG'', row_size = 1 / 6,
                            row_entry_price = 3000, source_wallet = wallet_a\<rparr>]\<rparr>"

subsection \<open>Assertions on state transformers\<close>

text \<open>\<^verbatim>\<open>keeps I m\<close>: running \<^verbatim>\<open>m\<close> from a state where \<^verbatim>\<open>I\<close> holds ends in a state where it holds.\<close>

definition keeps :: "('s \<Rightarrow> bool) \<Rightarrow> ('s \<Rightarrow> 'a \<times> 's) \<Rightarrow> bool" where
  "keeps I m = (\<forall>s. I s \<longrightarrow> I (snd (m s)))"

abbreviation same_orders :: "market_order_request list \<Rightarrow> LighterTrader \<Rightarrow> bool" where
  "same_orders X \<equiv> (\<lambda>s. orders_submitted s = X)"










definition sol_event :: PositionEvent where
  "sol_event =
     \<lparr>event_type = OPEN, symbol = ''SOL-PERP'', side = LONG, size_ev = 10, price = 150,
      wallet_address = wallet_a, raw_data = None\<rparr>"

section \<open>Properties\<close>

lemmas action_defs = bind_def return_def raise_def catch_def catch_all_def never_raises_def

lemmas char_eval =
  upper_def upper_char_def lower_def lower_char_def lowercase_letters_def
  uppercase_letters_def digit_of_def

lemmas example_defs =
  engine_on_def store0_def stub_trader_def eth_event_def eth_long_def wallet_a_def wallet_b_def

lemma on_trader_db: "on_trader m w = (r, w1) \<Longrightarrow> db_manager w1 = db_manager w"
  by (auto simp: on_trader_def split: prod.splits)

lemma on_db_default:
  "on_db m w = (r, w1) \<Longrightarrow> default_max_position_usd w1 = default_max_position_usd w"
  by (auto simp: on_db_def split: prod.splits)

lemma get_my_balance_default:
  "get_my_balance tr w = (b, w1) \<Longrightarrow> default_max_position_usd w1 = default_max_position_usd w"
  by (auto simp: get_my_balance_def time_time_def on_trader_def Let_def
      split: prod.splits sum.splits if_splits)

lemma retry_attempts_numeral:
  "retry_attempts operation (numeral k) attempt le s =
     (case operation s of
        (Inr r, s1) \<Rightarrow> (Inr r, s1)
      | (Inl e, s1) \<Rightarrow>
          retry_attempts operation (pred_numeral k) (attempt + 1) (Some e)
            (if attempt < max_retries s1 then sleep (retry_delay s1) s1 else s1))"
  by (simp add: numeral_eq_Suc)

lemmas lighter_eval =
  lighter_def get_balance_def get_account_info_def get_positions_def position_of_api_def
  get_symbol_by_market_index_def get_market_price_def get_market_index_def clean_symbol_def
  MARKET_INDEX_def best_price_def Decimal_def truthy_def or_zero_def
  place_market_order_def generate_client_order_index_def get_signer_client_def
  int_of_decimal_def default_max_slippage_def failed_order_def string_of_int_def
  retry_operation_def account_query_def order_book_orders_def create_market_order_def
  remote_call_def default_max_retries_def default_retry_delay_def accepted_def
  orders_submitted_def

lemma update_position_in_db_open:
  "update_position_in_db ev sz sd False w = w"
  by (simp add: update_position_in_db_def add_position_one_argument_def on_db_def action_defs Let_def)

lemma update_position_in_db_close:
  "db_fault (db_manager w) (db_calls (db_manager w)) = None \<Longrightarrow>
   positions (db_manager (update_position_in_db ev sz sd True w)) =
     filter (\<lambda>p. \<not> (row_symbol p = upper (symbol ev) \<and> source_wallet p = lower (wallet_address ev)))
       (positions (db_manager w))"
  by (simp add: update_position_in_db_def remove_position_def db_execute_def on_db_def action_defs Let_def)

lemma execute_follow_cases:
  "execute_follow tr ev sz sd w =
      (case (if event_type ev = CLOSE \<or> event_type ev = FLIP
             then on_trader (t_close_position tr (symbol ev))
             else on_trader (t_place_market_order tr (symbol ev) sd sz)) w of
         (Inl e, w2) \<Rightarrow> (\<lparr>decision = ERROR, reason = str_exn e, follow_size = None,
                           follow_side = None, order_result = None\<rparr>, w2)
       | (Inr res, w2) \<Rightarrow>
           if success res
           then (\<lparr>decision = FOLLOW, reason = ''follow succeeded'', follow_size = Some sz,
                  follow_side = Some sd, order_result = Some res\<rparr>,
                 update_position_in_db ev sz sd (event_type ev = CLOSE \<or> event_type ev = FLIP) w2)
           else (\<lparr>decision = ERROR, reason = ''order failed: '' @ str_optional (error res),
                  follow_size = None, follow_side = None, order_result = Some res\<rparr>, w2))"
  unfolding execute_follow_def action_defs Let_def
  by (simp split: prod.splits sum.splits)

lemmas engine_eval =
  on_wallet_event_def should_follow_def check_position_lock_def get_my_balance_def time_time_def
  calculate_follow_params_def calculate_open_params_def calculate_follow_size_def position_ratio_def
  execute_follow_def update_position_in_db_open
  on_db_def on_trader_def get_wallet_def get_position_def db_execute_def
  action_defs example_defs char_eval Let_def


lemma get_my_balance_db: "db_manager (snd (get_my_balance tr w)) = db_manager w"
  by (auto simp add: get_my_balance_def time_time_def on_trader_def Let_def
      split: prod.splits sum.splits)

subsection \<open>Tracker\<close>


lemma compare_position_null_size:
  "szi d = Null \<Longrightarrow> compare_position sy (Some d) new_pos wallet = Inl (Exception ''InvalidOperation'')"
  by (simp add: compare_position_def decimal_field_def)





subsection \<open>Retry layer\<close>

lemma retry_attempts_all_fail:
  "\<forall>i<k. isl (outcome (length (requests s) + i)) \<Longrightarrow>
   retry_attempts (remote_call outcome rq) k attempt le s =
     (Inl (if k = 0 then raise_last_error le
           else projl (outcome (length (requests s) + k - 1))),
      s\<lparr>requests := requests s @ replicate k rq,
        sleeps := sleeps s @ replicate (nat (min (int k) (max_retries s - attempt))) (retry_delay s)\<rparr>)"
proof (induction k arbitrary: s attempt le)
  case 0
  then show ?case by simp
next
  case (Suc k)
  from Suc.prems obtain e where e: "outcome (length (requests s)) = Inl e"
    by (metis add.right_neutral isl_def zero_less_Suc)
  define s1 where "s1 = s\<lparr>requests := requests s @ [rq]\<rparr>"
  define s2 where "s2 = (if attempt < max_retries s1 then sleep (retry_delay s1) s1 else s1)"
  have rq2: "requests s2 = requests s @ [rq]" and mr: "max_retries s2 = max_retries s"
    and rd: "retry_delay s2 = retry_delay s"
    by (simp_all add: s2_def s1_def sleep_def)
  have "\<forall>i<k. isl (outcome (length (requests s2) + i))"
    using Suc.prems by (auto simp: rq2)
  from Suc.IH [OF this, of "attempt + 1" "Some e"]
  have ih: "retry_attempts (remote_call outcome rq) k (attempt + 1) (Some e) s2 =
     (Inl (if k = 0 then e else projl (outcome (length (requests s) + k))),
      s2\<lparr>requests := requests s @ replicate (Suc k) rq,
        sleeps := sleeps s2 @ replicate (nat (min (int k) (max_retries s - (attempt + 1)))) (retry_delay s)\<rparr>)"
    by (simp add: rq2 mr rd raise_last_error_def replicate_append_same)
  have step: "retry_attempts (remote_call outcome rq) (Suc k) attempt le s =
      retry_attempts (remote_call outcome rq) k (attempt + 1) (Some e) s2"
    by (simp add: remote_call_def e s2_def s1_def)
  show ?case
  proof (cases "attempt < max_retries s")
    case True
    then have n: "nat (min (int (Suc k)) (max_retries s - attempt)) =
        Suc (nat (min (int k) (max_retries s - (attempt + 1))))" by auto
    show ?thesis unfolding step ih n
      using True e by (auto simp add: s2_def s1_def sleep_def)
  next
    case False
    then have n: "nat (min (int (Suc k)) (max_retries s - attempt)) = 0"
       "nat (min (int k) (max_retries s - (attempt + 1))) = 0" by auto
    show ?thesis unfolding step ih n
      using False e by (auto simp add: s2_def s1_def sleep_def)
  qed
qed

lemma retry_operation_all_fail:
  assumes "\<forall>i < nat (max_retries s). isl (outcome (length (requests s) + i))"
  shows "retry_operation (remote_call outcome rq) s =
     (Inl (if max_retries s \<le> 0 then Exception ''exceptions must derive from BaseException''
           else projl (outcome (length (requests s) + nat (max_retries s) - 1))),
      s\<lparr>requests := requests s @ replicate (nat (max_retries s)) rq,
        sleeps := sleeps s @ replicate (nat (max_retries s) - 1) (retry_delay s)\<rparr>)"
proof -
  have "nat (min (int (nat (max_retries s))) (max_retries s - 1)) = nat (max_retries s) - 1"
    by auto
  then show ?thesis
    unfolding retry_operation_def retry_attempts_all_fail [OF assms]
    by (auto simp add: raise_last_error_def)
qed

text \<open>
  C5.  A remote call that fails on every attempt is attempted exactly \<^verbatim>\<open>max_retries\<close>
  times (the log grows by that many requests), the retry layer sleeps \<^verbatim>\<open>retry_delay\<close>
  between two attempts and not after the last one, and the call ends by raising the error
  of the last attempt.  (With \<^verbatim>\<open>max_retries\<close> \<open>\<le> 0\<close> no attempt is made and
  \<^verbatim>\<open>raise None\<close> raises a \<^verbatim>\<open>TypeError\<close>.)  The defaults are 5 attempts and 3 seconds.
\<close>

theorem retry_operation_bounded:
  assumes "\<forall>i < nat (max_retries s). isl (outcome (length (requests s) + i))"
  shows "retry_operation (remote_call outcome rq) s =
     (Inl (if max_retries s \<le> 0 then Exception ''exceptions must derive from BaseException''
           else projl (outcome (length (requests s) + nat (max_retries s) - 1))),
      s\<lparr>requests := requests s @ replicate (nat (max_retries s)) rq,
        sleeps := sleeps s @ replicate (nat (max_retries s) - 1) (retry_delay s)\<rparr>)"
  using assms by (rule retry_operation_all_fail)

theorem retry_operation_bounded_witness:
  "isl (account_api venue_down 4)
   \<and> retry_operation (remote_call (account_api venue_down) (AccountQuery 7)) venue_down =
       (Inl (Exception ''timeout''),
        venue_down\<lparr>requests := [AccountQuery 7, AccountQuery 7, AccountQuery 7, AccountQuery 7,
                                AccountQuery 7],
                   sleeps := [3, 3, 3, 3]\<rparr>)"
proof -
  have h: "\<forall>i < nat (max_retries venue_down).
             isl (account_api venue_down (length (requests venue_down) + i))"
    by (simp add: venue_down_def)
  have five: "nat (max_retries venue_down) = 5" "max_retries venue_down = 5"
    "retry_delay venue_down = 3" "requests venue_down = []" "sleeps venue_down = []"
    "account_api venue_down = (\<lambda>k. Inl (Exception ''timeout''))"
    by (simp_all add: venue_down_def default_max_retries_def default_retry_delay_def)
  show ?thesis
    using retry_operation_bounded [OF h, of "AccountQuery 7"]
    by (simp add: five eval_nat_numeral)
qed

subsection \<open>Execution\<close>

text \<open>
  C4.  When the execution operation the engine invokes (closing for CLOSE and FLIP,
  placing a market order otherwise) raises, or returns a result without success, the
  engine returns decision ERROR whose reason carries the error, and the store is as it
  was before the order was attempted.
\<close>

theorem execute_follow_failure:
  assumes op: "(if event_type ev = CLOSE \<or> event_type ev = FLIP
            then on_trader (t_close_position tr (symbol ev))
            else on_trader (t_place_market_order tr (symbol ev) sd sz)) w = (outcome, w1)"
      and failed: "case outcome of Inl e \<Rightarrow> True | Inr res \<Rightarrow> \<not> success res"
  shows "execute_follow tr ev sz sd w =
           (\<lparr>decision = ERROR,
             reason = (case outcome of Inl e \<Rightarrow> str_exn e
                       | Inr res \<Rightarrow> ''order failed: '' @ str_optional (error res)),
             follow_size = None, follow_side = None,
             order_result = (case outcome of Inl e \<Rightarrow> None | Inr res \<Rightarrow> Some res)\<rparr>, w1)
         \<and> db_manager w1 = db_manager w"
proof -
  define m where "m = (if event_type ev = CLOSE \<or> event_type ev = FLIP
            then on_trader (t_close_position tr (symbol ev))
            else on_trader (t_place_market_order tr (symbol ev) sd sz))"
  have m: "m w = (outcome, w1)" using op by (simp add: m_def)
  have db: "db_manager w1 = db_manager w"
    using op by (cases "event_type ev = CLOSE \<or> event_type ev = FLIP") (simp_all add: on_trader_db)
  have ex: "execute_follow tr ev sz sd w =
      (case m w of
         (Inl e, w2) \<Rightarrow> (\<lparr>decision = ERROR, reason = str_exn e, follow_size = None,
                           follow_side = None, order_result = None\<rparr>, w2)
       | (Inr res, w2) \<Rightarrow>
           if success res
           then (\<lparr>decision = FOLLOW, reason = ''follow succeeded'', follow_size = Some sz,
                  follow_side = Some sd, order_result = Some res\<rparr>,
                 update_position_in_db ev sz sd (event_type ev = CLOSE \<or> event_type ev = FLIP) w2)
           else (\<lparr>decision = ERROR, reason = ''order failed: '' @ str_optional (error res),
                  follow_size = None, follow_side = None, order_result = Some res\<rparr>, w2))"
    unfolding execute_follow_def m_def action_defs Let_def
    by (simp split: prod.splits sum.splits)
  show ?thesis
  proof (cases outcome)
    case (Inl e)
    then show ?thesis using db by (simp add: ex m)
  next
    case (Inr res)
    then show ?thesis using db failed by (simp add: ex m)
  qed
qed

theorem execute_follow_failure_witness:
  "execute_follow (stub_trader 10000 [] (Some 3000) (Inr (failed_order ''insufficient margin'')))
     (eth_event OPEN wallet_a) (1 / 6) BUY (engine_on store0 ()) =
     (\<lparr>decision = ERROR, reason = ''order failed: insufficient margin'',
       follow_size = None, follow_side = None,
       order_result = Some (failed_order ''insufficient margin'')\<rparr>, engine_on store0 ())
   \<and> execute_follow (stub_trader 10000 [eth_long 2] (Some 3000) (Inl (Exception ''connection reset'')))
     (eth_event CLOSE wallet_a) 2 SELL (engine_on store0 ()) =
     (\<lparr>decision = ERROR, reason = ''connection reset'',
       follow_size = None, follow_side = None, order_result = None\<rparr>, engine_on store0 ())"
  using execute_follow_failure [of "eth_event OPEN wallet_a"
      "stub_trader 10000 [] (Some 3000) (Inr (failed_order ''insufficient margin''))" BUY "1 / 6"
      "engine_on store0 ()" "Inr (failed_order ''insufficient margin'')" "engine_on store0 ()"]
    execute_follow_failure [of "eth_event CLOSE wallet_a"
      "stub_trader 10000 [eth_long 2] (Some 3000) (Inl (Exception ''connection reset''))" SELL 2
      "engine_on store0 ()" "Inl (Exception ''connection reset'')" "engine_on store0 ()"]
  by (simp add: example_defs on_trader_def failed_order_def str_optional_def)

subsection \<open>Orders reach the venue only for mapped symbols\<close>

lemma orders_submitted_in_append:
  "orders_submitted_in (xs @ ys) = orders_submitted_in xs @ orders_submitted_in ys"
  by (induction xs rule: orders_submitted_in.induct) simp_all

lemma orders_sleep: "orders_submitted (sleep d s) = orders_submitted s"
  by (simp add: orders_submitted_def sleep_def)

lemma orders_retry_attempts:
  assumes "\<And>s. orders_submitted (snd (operation s)) = orders_submitted s"
  shows "orders_submitted (snd (retry_attempts operation k attempt le s)) = orders_submitted s"
proof (induction k arbitrary: s attempt le)
  case 0
  then show ?case by simp
next
  case (Suc k)
  obtain r s1 where op: "operation s = (r, s1)" by (cases "operation s")
  have s1: "orders_submitted s1 = orders_submitted s" using assms [of s] op by simp
  show ?case
  proof (cases r)
    case (Inr x)
    then show ?thesis using op s1 by simp
  next
    case (Inl e)
    then show ?thesis using op s1 Suc.IH by (simp add: orders_sleep)
  qed
qed

lemma orders_retry_operation:
  assumes "\<And>s. orders_submitted (snd (operation s)) = orders_submitted s"
  shows "orders_submitted (snd (retry_operation operation s)) = orders_submitted s"
  unfolding retry_operation_def using assms by (rule orders_retry_attempts)

lemma orders_account_query: "orders_submitted (snd (account_query s)) = orders_submitted s"
  by (simp add: account_query_def remote_call_def orders_submitted_def orders_submitted_in_append)

lemma orders_order_book: "orders_submitted (snd (order_book_orders mi s)) = orders_submitted s"
  by (simp add: order_book_orders_def remote_call_def orders_submitted_def orders_submitted_in_append)

lemma orders_get_account_info: "orders_submitted (snd (get_account_info s)) = orders_submitted s"
  using orders_retry_operation [of account_query s, OF orders_account_query]
  by (auto simp add: get_account_info_def Let_def split: prod.splits sum.splits option.splits list.splits)

lemma orders_get_balance: "orders_submitted (snd (get_balance s)) = orders_submitted s"
  using orders_get_account_info [of s]
  by (auto simp add: get_balance_def split: prod.splits option.splits)

lemma orders_get_positions: "orders_submitted (snd (get_positions s)) = orders_submitted s"
  using orders_retry_operation [of account_query s, OF orders_account_query]
  by (auto simp add: get_positions_def split: prod.splits sum.splits option.splits list.splits)

lemma orders_get_market_price: "orders_submitted (snd (get_market_price sy s)) = orders_submitted s"
proof (cases "get_market_index sy")
  case (Inl e)
  then show ?thesis by (simp add: get_market_price_def)
next
  case (Inr mi)
  then show ?thesis
    using orders_retry_operation [of "order_book_orders mi" s, OF orders_order_book]
    by (auto simp add: get_market_price_def split: prod.splits sum.splits option.splits)
qed

lemma unmapped_index:
  "clean_symbol sy \<noteq> ''BTC'' \<Longrightarrow> clean_symbol sy \<noteq> ''ETH'' \<Longrightarrow>
   get_market_index sy = Inl (Exception (''unknown symbol: '' @ sy))"
  by (simp add: get_market_index_def MARKET_INDEX_def)

lemma unmapped_price:
  "clean_symbol sy \<noteq> ''BTC'' \<Longrightarrow> clean_symbol sy \<noteq> ''ETH'' \<Longrightarrow> get_market_price sy s = (None, s)"
  by (simp add: get_market_price_def unmapped_index)

lemma unmapped_order:
  "clean_symbol sy \<noteq> ''BTC'' \<Longrightarrow> clean_symbol sy \<noteq> ''ETH'' \<Longrightarrow>
   place_market_order sy sd sz reduce_only max_slippage s = (failed_order (''unknown symbol: '' @ sy), s)"
  by (simp add: place_market_order_def unmapped_index)

lemma unmapped_close:
  "clean_symbol sy \<noteq> ''BTC'' \<Longrightarrow> clean_symbol sy \<noteq> ''ETH'' \<Longrightarrow>
   orders_submitted (snd (close_position sy s)) = orders_submitted s"
  using orders_get_positions [of s]
  by (auto simp add: close_position_def unmapped_order split: prod.splits option.splits)


lemma keepsI: "(\<And>s. I s \<Longrightarrow> I (snd (m s))) \<Longrightarrow> keeps I m"
  by (simp add: keeps_def)

lemma keepsD: "keeps I m \<Longrightarrow> I s \<Longrightarrow> I (snd (m s))"
  by (simp add: keeps_def)

lemma keeps_return: "keeps I (return x)"
  by (simp add: keeps_def return_def)

lemma keeps_raise: "keeps I (raise e)"
  by (simp add: keeps_def raise_def)

lemma keeps_bind: "keeps I m \<Longrightarrow> (\<And>x. keeps I (f x)) \<Longrightarrow> keeps I (bind m f)"
  by (auto simp add: keeps_def bind_def split: prod.splits sum.splits)

lemma keeps_catch: "keeps I m \<Longrightarrow> (\<And>e. keeps I (h e)) \<Longrightarrow> keeps I (catch m h)"
  by (auto simp add: keeps_def catch_def split: prod.splits sum.splits)

lemma keeps_catch_all: "keeps I m \<Longrightarrow> keeps I (catch_all m h)"
  by (auto simp add: keeps_def catch_all_def split: prod.splits sum.splits)

lemma keeps_never_raises: "keeps I f \<Longrightarrow> keeps I (never_raises f)"
  by (auto simp add: keeps_def never_raises_def split: prod.splits)

lemma keeps_if: "keeps I a \<Longrightarrow> keeps I b \<Longrightarrow> keeps I (if c then a else b)"
  by simp

lemma keeps_option: "keeps I a \<Longrightarrow> (\<And>x. keeps I (f x)) \<Longrightarrow> keeps I (case v of None \<Rightarrow> a | Some x \<Rightarrow> f x)"
  by (cases v) simp_all

lemma keeps_prod: "(\<And>a b. keeps I (f a b)) \<Longrightarrow> keeps I (case p of (a, b) \<Rightarrow> f a b)"
  by (cases p) simp

lemma keeps_let: "keeps I (f v) \<Longrightarrow> keeps I (let x = v in f x)"
  by simp

lemma keeps_on_db: "keeps (\<lambda>w. J (lighter_trader w)) (on_db m)"
  by (auto simp add: keeps_def on_db_def split: prod.splits)

lemma keeps_on_trader: "keeps J m \<Longrightarrow> keeps (\<lambda>w. J (lighter_trader w)) (on_trader m)"
  by (auto simp add: keeps_def on_trader_def split: prod.splits)

lemmas keeps_intros =
  keeps_return keeps_raise keeps_bind keeps_catch keeps_catch_all keeps_never_raises
  keeps_if keeps_option keeps_prod keeps_let keeps_on_db


lemma keeps_get_balance: "keeps (same_orders X) get_balance"
  by (simp add: keeps_def orders_get_balance)

lemma keeps_get_positions: "keeps (same_orders X) get_positions"
  by (simp add: keeps_def orders_get_positions)

lemma keeps_get_market_price: "keeps (same_orders X) (get_market_price sy)"
  by (simp add: keeps_def orders_get_market_price)

lemma keeps_unmapped_order:
  "clean_symbol sy \<noteq> ''BTC'' \<Longrightarrow> clean_symbol sy \<noteq> ''ETH'' \<Longrightarrow>
   keeps (same_orders X) (place_market_order sy sd sz ro ms)"
  by (simp add: keeps_def unmapped_order)

lemma keeps_unmapped_close:
  "clean_symbol sy \<noteq> ''BTC'' \<Longrightarrow> clean_symbol sy \<noteq> ''ETH'' \<Longrightarrow>
   keeps (same_orders X) (close_position sy)"
  by (simp add: keeps_def unmapped_close)

lemma keeps_time_time: "keeps (\<lambda>w. J (lighter_trader w)) time_time"
  by (simp add: keeps_def time_time_def)

lemma keeps_get_my_balance:
  "keeps (\<lambda>w. same_orders X (lighter_trader w)) (get_my_balance lighter)"
proof (rule keepsI)
  fix w :: "LighterTrader StrategyEngine"
  assume "orders_submitted (lighter_trader w) = X"
  then show "orders_submitted (lighter_trader (snd (get_my_balance lighter w))) = X"
    using orders_get_balance [of "lighter_trader w"]
    by (auto simp add: get_my_balance_def time_time_def on_trader_def lighter_def never_raises_def Let_def
        split: prod.splits sum.splits if_splits)
qed

lemma keeps_check_position_lock:
  "keeps (\<lambda>w. J (lighter_trader w)) (check_position_lock sy addr)"
  unfolding check_position_lock_def by (intro keeps_intros)

lemma keeps_should_follow:
  "keeps (\<lambda>w. same_orders X (lighter_trader w)) (should_follow lighter ev)"
  unfolding should_follow_def
  by (intro keeps_intros keeps_check_position_lock keeps_get_my_balance)


lemma keeps_on_lighter:
  "keeps (same_orders X) f \<Longrightarrow>
   keeps (\<lambda>w. same_orders X (lighter_trader w)) (on_trader (never_raises f))"
  by (rule keeps_on_trader [where J = "same_orders X"]) (rule keeps_never_raises)

lemma keeps_lighter_positions:
  "keeps (\<lambda>w. same_orders X (lighter_trader w)) (on_trader (t_get_positions lighter))"
  by (simp add: lighter_def keeps_on_lighter keeps_get_positions)

lemma keeps_lighter_price:
  "keeps (\<lambda>w. same_orders X (lighter_trader w)) (on_trader (t_get_market_price lighter sy))"
  by (simp add: lighter_def keeps_on_lighter keeps_get_market_price)

lemma keeps_calculate_follow_size:
  "keeps (\<lambda>w. same_orders X (lighter_trader w)) (calculate_follow_size lighter ev)"
  unfolding calculate_follow_size_def
  by (intro keeps_intros keeps_get_my_balance) (simp add: keeps_def return_def Let_def)

lemma keeps_calculate_follow_params:
  "keeps (\<lambda>w. same_orders X (lighter_trader w)) (calculate_follow_params lighter ev)"
  unfolding calculate_follow_params_def calculate_close_params_def calculate_open_params_def
    calculate_increase_params_def calculate_decrease_params_def calculate_flip_params_def
  by (intro keeps_intros keeps_lighter_positions keeps_lighter_price keeps_calculate_follow_size)

lemma update_position_in_db_trader:
  "lighter_trader (update_position_in_db ev sz sd is_close w) = lighter_trader w"
  by (auto simp add: update_position_in_db_def add_position_one_argument_def on_db_def action_defs
      split: prod.splits sum.splits)

lemma keeps_execute_follow:
  assumes "clean_symbol (symbol ev) \<noteq> ''BTC''" "clean_symbol (symbol ev) \<noteq> ''ETH''"
  shows "keeps (\<lambda>w. same_orders X (lighter_trader w)) (execute_follow lighter ev sz sd)"
proof -
  have u: "keeps (\<lambda>w. same_orders X (lighter_trader w))
             (\<lambda>w. (Inr r, update_position_in_db ev sz sd c w))" for r :: FollowResult and c
    by (simp add: keeps_def update_position_in_db_trader)
  have c: "keeps (\<lambda>w. same_orders X (lighter_trader w)) (on_trader (t_close_position lighter (symbol ev)))"
    by (simp add: lighter_def keeps_on_lighter keeps_unmapped_close assms)
  have p: "keeps (\<lambda>w. same_orders X (lighter_trader w))
             (on_trader (t_place_market_order lighter (symbol ev) sd sz))"
    by (simp add: lighter_def keeps_on_lighter keeps_unmapped_order assms)
  show ?thesis
    unfolding execute_follow_def Let_def
    by (intro keeps_intros u c p)
qed

lemma keeps_on_wallet_event:
  assumes "clean_symbol (symbol ev) \<noteq> ''BTC''" "clean_symbol (symbol ev) \<noteq> ''ETH''"
  shows "keeps (\<lambda>w. same_orders X (lighter_trader w)) (on_wallet_event lighter ev)"
  unfolding on_wallet_event_def
  by (intro keeps_intros keeps_should_follow keeps_calculate_follow_params keeps_execute_follow assms)

text \<open>
  C10.  For a symbol whose cleaned form (upper case, with \<^verbatim>\<open>-PERP\<close>, \<^verbatim>\<open>/USDC\<close> and \<^verbatim>\<open>-USD\<close>
  removed) is neither BTC nor ETH, the two keys of \<^verbatim>\<open>MARKET_INDEX\<close>: \<^verbatim>\<open>get_market_price\<close>
  returns \<^verbatim>\<open>None\<close> and \<^verbatim>\<open>place_market_order\<close> returns a result without success and with
  an error message, both leaving the trader as it was (no remote call, no order); and
  handling an event for that symbol sends no order to the venue, whatever the event,
  the store and the venue are.
\<close>

theorem unmapped_symbol_never_traded:
  assumes "clean_symbol sy \<noteq> ''BTC''" and "clean_symbol sy \<noteq> ''ETH''"
  shows "get_market_price sy s = (None, s)
       \<and> place_market_order sy sd sz reduce_only max_slippage s =
           (\<lparr>success = False, order_id = None, tx_hash = None,
             error = Some (''unknown symbol: '' @ sy)\<rparr>, s)
       \<and> (symbol ev = sy \<longrightarrow>
            orders_submitted (lighter_trader (snd (on_wallet_event lighter ev w)))
              = orders_submitted (lighter_trader w))"
proof -
  have "orders_submitted (lighter_trader (snd (on_wallet_event lighter ev w)))
              = orders_submitted (lighter_trader w)" if "symbol ev = sy"
    using keepsD [OF keeps_on_wallet_event [of ev "orders_submitted (lighter_trader w)"], of w]
      assms that by simp
  then show ?thesis
    using assms by (simp add: unmapped_price unmapped_order failed_order_def)
qed

theorem unmapped_symbol_never_traded_witness:
  "get_market_price ''SOL-PERP'' venue_down = (None, venue_down)
   \<and> place_market_order ''SOL-PERP'' BUY 1 False default_max_slippage venue_down =
       (\<lparr>success = False, order_id = None, tx_hash = None,
         error = Some ''unknown symbol: SOL-PERP''\<rparr>, venue_down)
   \<and> orders_submitted (lighter_trader (snd (on_wallet_event lighter sol_event (engine_on store0 venue_down)))) = []"
proof -
  have c: "clean_symbol ''SOL-PERP'' = ''SOL''"
    by (simp add: clean_symbol_def char_eval)
  have n: "clean_symbol ''SOL-PERP'' \<noteq> ''BTC''" "clean_symbol ''SOL-PERP'' \<noteq> ''ETH''"
    by (simp_all add: c)
  have e: "symbol sol_event = ''SOL-PERP''" by (simp add: sol_event_def)
  have o: "orders_submitted (lighter_trader (engine_on store0 venue_down)) = []"
    by (simp add: engine_on_def venue_down_def orders_submitted_def)
  from unmapped_symbol_never_traded [OF n, where s = venue_down and sd = BUY and sz = 1
      and reduce_only = False and max_slippage = default_max_slippage and ev = sol_event
      and w = "engine_on store0 venue_down"]
  show ?thesis by (simp add: e o)
qed

subsection \<open>Balance cache\<close>

lemma retry_attempts_account_query:
  "account_api s = f \<Longrightarrow> account_index s = ix \<Longrightarrow>
   retry_attempts account_query k attempt le s =
   retry_attempts (remote_call f (AccountQuery ix)) k attempt le s"
proof (induction k arbitrary: s attempt le)
  case 0
  then show ?case by simp
next
  case (Suc k)
  have q: "account_query s = remote_call f (AccountQuery ix) s"
    using Suc.prems by (simp add: account_query_def)
  obtain r s1 where op: "remote_call f (AccountQuery ix) s = (r, s1)"
    by (cases "remote_call f (AccountQuery ix) s")
  then have s1: "account_api s1 = f" "account_index s1 = ix"
    using Suc.prems by (auto simp add: remote_call_def)
  show ?case
  proof (cases r)
    case (Inr x)
    then show ?thesis using q op by simp
  next
    case (Inl e)
    have "account_api (if attempt < max_retries s1 then sleep (retry_delay s1) s1 else s1) = f"
      "account_index (if attempt < max_retries s1 then sleep (retry_delay s1) s1 else s1) = ix"
      using s1 by (simp_all add: sleep_def)
    from Suc.IH [OF this] show ?thesis using Inl q op by simp
  qed
qed

lemma get_balance_venue_down:
  assumes "\<forall>i < nat (max_retries s). isl (account_api s (length (requests s) + i))"
  shows "get_balance s =
     (0, s\<lparr>requests := requests s @ replicate (nat (max_retries s)) (AccountQuery (account_index s)),
           sleeps := sleeps s @ replicate (nat (max_retries s) - 1) (retry_delay s)\<rparr>)"
proof -
  have "retry_operation account_query s =
        retry_operation (remote_call (account_api s) (AccountQuery (account_index s))) s"
    unfolding retry_operation_def by (rule retry_attempts_account_query) simp_all
  then show ?thesis
    unfolding get_balance_def get_account_info_def retry_operation_all_fail [OF assms]
    by simp
qed

lemma get_my_balance_cached:
  "\<not> clock w (clock_reads w) - balance_updated_at w > balance_cache_seconds w \<Longrightarrow>
   get_my_balance tr w = (my_balance w, w\<lparr>clock_reads := Suc (clock_reads w)\<rparr>)"
  by (simp add: get_my_balance_def time_time_def)

lemma get_my_balance_fallback:
  "clock w (clock_reads w) - balance_updated_at w > balance_cache_seconds w \<Longrightarrow>
   on_trader (t_get_balance tr) (w\<lparr>clock_reads := Suc (clock_reads w)\<rparr>) = (Inl e, w2) \<Longrightarrow>
   get_my_balance tr w = (my_balance w, w2)"
  by (auto simp add: get_my_balance_def time_time_def on_trader_def split: prod.splits)

text \<open>
  C8.  The balance is read from the cache within \<^verbatim>\<open>balance_cache_seconds\<close> of the last
  refresh, without a call to the trader (\<open>get_my_balance_cached\<close>), and the engine keeps
  the cached value when the trader's \<^verbatim>\<open>get_balance\<close> raises (\<open>get_my_balance_fallback\<close>).
  But \<^verbatim>\<open>LighterTrader.get_balance\<close> does not raise: when the account query fails at every
  attempt, \<^verbatim>\<open>get_account_info\<close> returns \<^verbatim>\<open>None\<close> and \<^verbatim>\<open>get_balance\<close> returns 0.  So a failed
  refresh does not return the previously known balance: the engine returns 0 and stores
  0 as the balance, with the time of the refresh.
\<close>

theorem failed_refresh_overwrites_cached_balance:
  assumes expired: "clock w (clock_reads w) - balance_updated_at w > balance_cache_seconds w"
      and down: "\<forall>i < nat (max_retries (lighter_trader w)).
                   isl (account_api (lighter_trader w) (length (requests (lighter_trader w)) + i))"
  shows "fst (get_my_balance lighter w) = 0
       \<and> my_balance (snd (get_my_balance lighter w)) = 0
       \<and> balance_updated_at (snd (get_my_balance lighter w)) = clock w (clock_reads w)"
  using expired
  by (simp add: get_my_balance_def time_time_def on_trader_def lighter_def never_raises_def
      get_balance_venue_down [OF down])

theorem failed_refresh_overwrites_cached_balance_witness:
  "my_balance engine_cached = 10000
   \<and> fst (get_my_balance lighter engine_cached) = 0
   \<and> my_balance (snd (get_my_balance lighter engine_cached)) = 0
   \<and> balance_updated_at (snd (get_my_balance lighter engine_cached)) = 1000"
proof -
  have expired: "clock engine_cached (clock_reads engine_cached) - balance_updated_at engine_cached
      > balance_cache_seconds engine_cached"
    by (simp add: engine_cached_def engine_on_def)
  have down: "\<forall>i < nat (max_retries (lighter_trader engine_cached)).
      isl (account_api (lighter_trader engine_cached) (length (requests (lighter_trader engine_cached)) + i))"
    by (simp add: engine_cached_def engine_on_def venue_down_def)
  from failed_refresh_overwrites_cached_balance [OF expired down]
  show ?thesis by (simp add: engine_cached_def engine_on_def)
qed

subsection \<open>Bookkeeping of mirrored positions\<close>

text \<open>
  C1.  For an event that is neither CLOSE nor FLIP, when the market order succeeds the
  engine returns decision FOLLOW with the size and the side, but the store is exactly as
  it was: the position is not upserted.  \<^verbatim>\<open>_update_position_in_db\<close> calls \<^verbatim>\<open>add_position\<close>
  with one dictionary, the call raises \<^verbatim>\<open>TypeError\<close>, and the exception is logged and
  dropped.  (For CLOSE and FLIP the rows of the symbol and the wallet are deleted when the
  store operation succeeds: \<open>update_position_in_db_close\<close>.)
\<close>

theorem follow_of_open_is_not_persisted:
  assumes ty: "event_type ev \<noteq> CLOSE" "event_type ev \<noteq> FLIP"
      and op: "on_trader (t_place_market_order tr (symbol ev) sd sz) w = (Inr res, w1)"
      and ok: "success res"
  shows "execute_follow tr ev sz sd w =
           (\<lparr>decision = FOLLOW, reason = ''follow succeeded'', follow_size = Some sz,
             follow_side = Some sd, order_result = Some res\<rparr>, w1)
       \<and> db_manager w1 = db_manager w"
  using ty op ok on_trader_db [OF op]
  by (simp add: execute_follow_def action_defs update_position_in_db_open)

theorem follow_of_open_is_not_persisted_witness:
  "execute_follow (stub_trader 10000 [] (Some 3000) (Inr filled)) (eth_event OPEN wallet_a) (1 / 6) BUY
      (engine_on store0 ()) =
     (\<lparr>decision = FOLLOW, reason = ''follow succeeded'', follow_size = Some (1 / 6),
       follow_side = Some BUY, order_result = Some filled\<rparr>, engine_on store0 ())
   \<and> positions (db_manager (engine_on store0 ())) = []"
proof -
  let ?tr = "stub_trader 10000 [] (Some 3000) (Inr filled)"
  let ?ev = "eth_event OPEN wallet_a"
  have ty: "event_type ?ev \<noteq> CLOSE" "event_type ?ev \<noteq> FLIP" by (simp_all add: eth_event_def)
  have op: "on_trader (t_place_market_order ?tr (symbol ?ev) BUY (1 / 6)) (engine_on store0 ()) =
      (Inr filled, engine_on store0 ())"
    by (simp add: on_trader_def stub_trader_def engine_on_def)
  have ok: "success filled" by (simp add: filled_def)
  from follow_of_open_is_not_persisted [OF ty op ok]
  show ?thesis by (simp add: engine_on_def store0_def)
qed

subsection \<open>Symbol lock\<close>

lemma locked_symbol_is_skipped:
  assumes ok1: "db_fault (db_manager w) (db_calls (db_manager w)) = None"
      and ok2: "db_fault (db_manager w) (Suc (db_calls (db_manager w))) = None"
      and wl: "find (\<lambda>r. address r = lower (wallet_address ev)) (wallets (db_manager w)) = Some wl"
      and en: "enabled wl"
      and held: "find (\<lambda>p. row_symbol p = upper (symbol ev)) (positions (db_manager w)) = Some row"
      and other: "lower (source_wallet row) \<noteq> lower (wallet_address ev)"
  shows "on_wallet_event tr ev w =
           (\<lparr>decision = SKIP,
             reason = symbol ev @ '' is locked by another wallet: ''
                        @ take 10 (lower (source_wallet row)) @ ''...'',
             follow_size = None, follow_side = None, order_result = None\<rparr>,
            w\<lparr>db_manager := (db_manager w)\<lparr>db_calls := db_calls (db_manager w) + 2\<rparr>\<rparr>)"
  using assms
  by (simp add: on_wallet_event_def should_follow_def check_position_lock_def
      on_db_def get_wallet_def get_position_def db_execute_def action_defs Let_def)

lemma locked_symbol_is_skipped_example:
  "on_wallet_event (stub_trader 10000 [] (Some 3000) (Inr filled)) (eth_event OPEN wallet_b)
      (engine_on store_locked ()) =
     (\<lparr>decision = SKIP, reason = ''ETH is locked by another wallet: 0xaaaa0000...'',
       follow_size = None, follow_side = None, order_result = None\<rparr>,
      engine_on (store_locked\<lparr>db_calls := 2\<rparr>) ())"
proof -
  let ?w = "engine_on store_locked ()"
  let ?ev = "eth_event OPEN wallet_b"
  let ?wl = "\<lparr>address = wallet_b, enabled = True, max_position_usd = None\<rparr>"
  let ?row = "\<lparr>row_symbol = ''ETH'', row_side = ''LONG'', row_size = 1 / 6,
               row_entry_price = 3000, source_wallet = wallet_a\<rparr>"
  have ok1: "db_fault (db_manager ?w) (db_calls (db_manager ?w)) = None"
    and ok2: "db_fault (db_manager ?w) (Suc (db_calls (db_manager ?w))) = None"
    by (simp_all add: engine_on_def store_locked_def store0_def)
  have wl: "find (\<lambda>r. address r = lower (wallet_address ?ev)) (wallets (db_manager ?w)) = Some ?wl"
    by (simp add: example_defs store_locked_def char_eval)
  have en: "enabled ?wl" by simp
  have held: "find (\<lambda>p. row_symbol p = upper (symbol ?ev)) (positions (db_manager ?w)) = Some ?row"
    by (simp add: example_defs store_locked_def char_eval)
  have other: "lower (source_wallet ?row) \<noteq> lower (wallet_address ?ev)"
    by (simp add: example_defs char_eval)
  from locked_symbol_is_skipped [OF ok1 ok2 wl en held other]
  show ?thesis
    by (simp add: example_defs store_locked_def char_eval)
qed

lemmas keeps_flow =
  keeps_return keeps_raise keeps_bind keeps_catch keeps_catch_all keeps_never_raises
  keeps_if keeps_option keeps_prod keeps_let

lemma keeps_rows_on_trader: "keeps (\<lambda>w. positions (db_manager w) = X) (on_trader m)"
  by (auto simp add: keeps_def on_trader_def split: prod.splits)

lemma keeps_rows_get_wallet: "keeps (\<lambda>w. positions (db_manager w) = X) (on_db (get_wallet addr))"
  by (auto simp add: keeps_def on_db_def get_wallet_def db_execute_def Let_def
      split: prod.splits option.splits)

lemma keeps_rows_get_position: "keeps (\<lambda>w. positions (db_manager w) = X) (on_db (get_position sy))"
  by (auto simp add: keeps_def on_db_def get_position_def db_execute_def Let_def
      split: prod.splits option.splits)

lemma keeps_rows_get_my_balance: "keeps (\<lambda>w. positions (db_manager w) = X) (get_my_balance tr)"
  by (simp add: keeps_def get_my_balance_db)

lemma keeps_rows_should_follow: "keeps (\<lambda>w. positions (db_manager w) = X) (should_follow tr ev)"
  unfolding should_follow_def check_position_lock_def
  by (intro keeps_flow keeps_rows_get_wallet keeps_rows_get_position keeps_rows_get_my_balance)

lemma keeps_rows_calculate_follow_size:
  "keeps (\<lambda>w. positions (db_manager w) = X) (calculate_follow_size tr ev)"
  unfolding calculate_follow_size_def
  by (intro keeps_flow keeps_rows_get_wallet keeps_rows_get_my_balance)
     (simp add: keeps_def return_def Let_def)

lemma keeps_rows_calculate_follow_params:
  "keeps (\<lambda>w. positions (db_manager w) = X) (calculate_follow_params tr ev)"
  unfolding calculate_follow_params_def calculate_close_params_def calculate_open_params_def
    calculate_increase_params_def calculate_decrease_params_def calculate_flip_params_def
  by (intro keeps_flow keeps_rows_on_trader keeps_rows_calculate_follow_size)

lemma keeps_rows_execute_follow:
  assumes "event_type ev \<noteq> CLOSE" "event_type ev \<noteq> FLIP"
  shows "keeps (\<lambda>w. positions (db_manager w) = X) (execute_follow tr ev sz sd)"
proof (rule keepsI)
  fix w :: "'a StrategyEngine"
  assume w: "positions (db_manager w) = X"
  obtain r w2 where op: "on_trader (t_place_market_order tr (symbol ev) sd sz) w = (r, w2)"
    by (cases "on_trader (t_place_market_order tr (symbol ev) sd sz) w")
  have "db_manager w2 = db_manager w" using op by (rule on_trader_db)
  then show "positions (db_manager (snd (execute_follow tr ev sz sd w))) = X"
    using assms op w unfolding execute_follow_cases
    by (simp add: update_position_in_db_open split: sum.splits)
qed

lemma non_close_event_keeps_positions:
  assumes "event_type ev \<noteq> CLOSE" "event_type ev \<noteq> FLIP"
  shows "positions (db_manager (snd (on_wallet_event tr ev w))) = positions (db_manager w)"
proof -
  have "keeps (\<lambda>w'. positions (db_manager w') = positions (db_manager w)) (on_wallet_event tr ev)"
    unfolding on_wallet_event_def
    by (intro keeps_flow keeps_rows_should_follow keeps_rows_calculate_follow_params
        keeps_rows_execute_follow assms)
  then show ?thesis by (simp add: keeps_def)
qed

text \<open>
  C2.  The lock check refuses the event of another tracked wallet when the store holds a
  row for the symbol (\<open>locked_symbol_is_skipped\<close>), but the engine never writes that row
  (C1): no event other than CLOSE and FLIP changes the positions table, whatever the
  trader does (\<open>non_close_event_keeps_positions\<close>), so the lock is never taken.  Two OPEN
  events for ETH from two tracked, enabled wallets, handled one after the other with
  orders that succeed, are both followed, and the positions table is empty after each.
\<close>

theorem two_opens_both_followed:
  "decision (fst (on_wallet_event (stub_trader 10000 [] (Some 3000) (Inr filled))
          (eth_event OPEN wallet_a) (engine_on store0 ()))) = FOLLOW
   \<and> positions (db_manager (snd (on_wallet_event (stub_trader 10000 [] (Some 3000) (Inr filled))
          (eth_event OPEN wallet_a) (engine_on store0 ())))) = []
   \<and> decision (fst (on_wallet_event (stub_trader 10000 [] (Some 3000) (Inr filled))
          (eth_event OPEN wallet_b)
          (snd (on_wallet_event (stub_trader 10000 [] (Some 3000) (Inr filled))
             (eth_event OPEN wallet_a) (engine_on store0 ()))))) = FOLLOW
   \<and> positions (db_manager (snd (on_wallet_event (stub_trader 10000 [] (Some 3000) (Inr filled))
          (eth_event OPEN wallet_b)
          (snd (on_wallet_event (stub_trader 10000 [] (Some 3000) (Inr filled))
             (eth_event OPEN wallet_a) (engine_on store0 ())))))) = []"
  by (simp add: engine_eval filled_def)

subsection \<open>Sizing\<close>

lemma open_params_sizing:
  assumes ty: "event_type ev = OPEN \<or> event_type ev = INCREASE"
      and bal: "get_my_balance tr w = (balance, w1)" and pos: "0 < balance"
      and wl: "on_db (get_wallet (wallet_address ev)) w1 = (Inr (Some wl), w2)"
      and cap: "cap = (case max_position_usd wl of
                         None \<Rightarrow> default_max_position_usd w
                       | Some v \<Rightarrow> if v = 0 then default_max_position_usd w else v)"
      and capp: "0 < cap"
      and px: "on_trader (t_get_market_price tr (symbol ev)) w2 = (Inr (Some p), w3)" and pp: "0 < p"
  shows "calculate_follow_size tr ev w = (Inr (min (balance * (1 / 10)) cap), w2)
       \<and> calculate_follow_params tr ev w =
           (Inr (min (balance * (1 / 10)) cap / p, if side ev = LONG then BUY else SELL), w3)"
proof -
  have d: "default_max_position_usd w2 = default_max_position_usd w"
    using on_db_default [OF wl] get_my_balance_default [OF bal] by simp
  have fs: "calculate_follow_size tr ev w = (Inr (min (balance * (1 / 10)) cap), w2)"
    using bal pos wl
    by (auto simp add: calculate_follow_size_def action_defs Let_def position_ratio_def cap d min_def
        split: option.splits)
  have n: "0 < min (balance * (1 / 10)) cap" using pos capp by simp
  have op: "calculate_open_params tr ev w =
           (Inr (min (balance * (1 / 10)) cap / p, if side ev = LONG then BUY else SELL), w3)"
  proof -
    have nn: "\<not> min (balance * (1 / 10)) cap \<le> 0" using n by (simp only: not_le)
    show ?thesis
      unfolding calculate_open_params_def bind_def fs
      using px pp nn by (simp add: return_def)
  qed
  show ?thesis using fs op ty
    by (auto simp add: calculate_follow_params_def calculate_increase_params_def)
qed

lemma open_params_sizing_example:
  "calculate_follow_size (stub_trader 10000 [] (Some 3000) (Inr (failed_order [])))
      (eth_event OPEN wallet_a) (engine_on store0 ()) =
     (Inr 500, (engine_on store0 ())\<lparr>db_manager := store0\<lparr>db_calls := 1\<rparr>, my_balance := 10000,
                  balance_updated_at := 1000, clock_reads := 1\<rparr>)
   \<and> calculate_follow_params (stub_trader 10000 [] (Some 3000) (Inr (failed_order [])))
      (eth_event OPEN wallet_a) (engine_on store0 ()) =
     (Inr (1 / 6, BUY), (engine_on store0 ())\<lparr>db_manager := store0\<lparr>db_calls := 1\<rparr>, my_balance := 10000,
                  balance_updated_at := 1000, clock_reads := 1\<rparr>)"
proof -
  let ?tr = "stub_trader 10000 [] (Some 3000) (Inr (failed_order []))"
  let ?ev = "eth_event OPEN wallet_a"
  let ?init = "engine_on store0 ()"
  let ?read = "?init\<lparr>my_balance := 10000, balance_updated_at := 1000, clock_reads := 1\<rparr>"
  let ?after = "?init\<lparr>db_manager := store0\<lparr>db_calls := 1\<rparr>, my_balance := 10000,
                  balance_updated_at := 1000, clock_reads := 1\<rparr>"
  let ?row = "\<lparr>address = wallet_a, enabled = True, max_position_usd = Some 500\<rparr>"
  have ty: "event_type ?ev = OPEN \<or> event_type ?ev = INCREASE" by (simp add: eth_event_def)
  have bal: "get_my_balance ?tr ?init = (10000, ?read)"
    by (simp add: get_my_balance_def time_time_def on_trader_def example_defs return_def)
  have wl: "on_db (get_wallet (wallet_address ?ev)) ?read = (Inr (Some ?row), ?after)"
    by (simp add: on_db_def get_wallet_def db_execute_def example_defs char_eval)
  have cap: "(500::rat) = (case max_position_usd ?row of
                         None \<Rightarrow> default_max_position_usd ?init
                       | Some v \<Rightarrow> if v = 0 then default_max_position_usd ?init else v)"
    by simp
  have px: "on_trader (t_get_market_price ?tr (symbol ?ev)) ?after = (Inr (Some 3000), ?after)"
    by (simp add: on_trader_def example_defs return_def)
  from open_params_sizing [OF ty bal _ wl cap _ px]
  show ?thesis by (simp add: eth_event_def)
qed

text \<open>
  C6.  For an OPEN or INCREASE event the follow notional is the smaller of a tenth of the
  balance and the maximum in force, and the follow size is that notional divided by what
  the trader's \<^verbatim>\<open>get_market_price\<close> returns, with side BUY for LONG and SELL for SHORT
  (\<open>open_params_sizing\<close>).  But \<^verbatim>\<open>LighterTrader.get_market_price\<close> reads each quote with its
  decimal point removed: for a best bid of 2999.5 and a best ask of 3000.5 it returns
  30000, not 3000.  With balance 10000 and a wallet maximum of 500 the notional is 500 and
  the follow size is 500 / 30000 = 1/60, where the notional divided by the price of the
  venue is 1/6.
\<close>

theorem size_divides_by_quote_without_point:
  "fst (get_market_price ''ETH'' venue_live) = Some 30000
   \<and> fst (calculate_follow_size lighter (eth_event OPEN wallet_a) (engine_on store0 venue_live)) = Inr 500
   \<and> fst (calculate_follow_params lighter (eth_event OPEN wallet_a) (engine_on store0 venue_live))
        = Inr (1 / 60, BUY)"
  by (simp add: venue_live_def lighter_eval engine_eval retry_attempts_numeral)

lemma price_live: "get_market_price ''ETH'' venue_live =
    (Some 30000, venue_live\<lparr>requests := [OrderBookQuery 1]\<rparr>)"
  by (simp add: venue_live_def lighter_eval char_eval retry_attempts_numeral)

lemma balance_live: "get_balance venue_live = (10000, venue_live\<lparr>requests := [AccountQuery 7]\<rparr>)"
  by (simp add: venue_live_def lighter_eval retry_attempts_numeral)

text \<open>
  C7.  For a DECREASE event the computed follow size is half the size of the first
  position the trader reports for the event's symbol (compared in upper case), and the
  side is SELL when that position is LONG and BUY otherwise; when the event is eligible
  and the half is positive, a market order of that size and side is placed, and the
  result is FOLLOW when it succeeds.  With no such position the size is 0 and the engine
  returns SKIP in the state reached after reading the positions: no order operation is
  invoked.  A held size of 2 gives an order of size 1.
\<close>

theorem decrease_follows_half:
  assumes ty: "event_type ev = DECREASE"
      and ps: "on_trader (t_get_positions tr) w = (Inr my_positions, w1)"
      and held: "find (\<lambda>pos. upper (pos_symbol pos) = upper (symbol ev)) my_positions = held"
  shows "calculate_follow_params tr ev w =
           (Inr (case held of
                   Some pos \<Rightarrow> (pos_size pos / 2, if pos_side pos = ''LONG'' then SELL else BUY)
                 | None \<Rightarrow> (0, BUY)), w1)
       \<and> (\<forall>w0 why. should_follow tr ev w0 = (Inr (True, why), w) \<longrightarrow>
            on_wallet_event tr ev w0 =
              (case held of
                 None \<Rightarrow>
                   (\<lparr>decision = SKIP, reason = ''follow size is 0 after calculation'',
                     follow_size = None, follow_side = None, order_result = None\<rparr>, w1)
               | Some pos \<Rightarrow>
                   if pos_size pos / 2 \<le> 0
                   then (\<lparr>decision = SKIP, reason = ''follow size is 0 after calculation'',
                          follow_size = None, follow_side = None, order_result = None\<rparr>, w1)
                   else
                     (case on_trader (t_place_market_order tr (symbol ev)
                                        (if pos_side pos = ''LONG'' then SELL else BUY)
                                        (pos_size pos / 2)) w1 of
                        (Inl e, w2) \<Rightarrow>
                          (\<lparr>decision = ERROR, reason = str_exn e, follow_size = None,
                            follow_side = None, order_result = None\<rparr>, w2)
                      | (Inr res, w2) \<Rightarrow>
                          if success res
                          then (\<lparr>decision = FOLLOW, reason = ''follow succeeded'',
                                 follow_size = Some (pos_size pos / 2),
                                 follow_side = Some (if pos_side pos = ''LONG'' then SELL else BUY),
                                 order_result = Some res\<rparr>, w2)
                          else (\<lparr>decision = ERROR,
                                 reason = ''order failed: '' @ str_optional (error res),
                                 follow_size = None, follow_side = None,
                                 order_result = Some res\<rparr>, w2))))"
proof -
  have a: "calculate_follow_params tr ev w =
           (Inr (case held of
                   Some pos \<Rightarrow> (pos_size pos / 2, if pos_side pos = ''LONG'' then SELL else BUY)
                 | None \<Rightarrow> (0, BUY)), w1)"
    using ty ps held
    by (auto simp add: calculate_follow_params_def calculate_decrease_params_def bind_def return_def
        Let_def split: option.splits)
  have b: "on_wallet_event tr ev w0 =
      (case calculate_follow_params tr ev w of
         (Inl e, w2) \<Rightarrow> (\<lparr>decision = ERROR, reason = str_exn e, follow_size = None,
                           follow_side = None, order_result = None\<rparr>, w2)
       | (Inr (sz, sd), w2) \<Rightarrow>
           if sz \<le> 0
           then (\<lparr>decision = SKIP, reason = ''follow size is 0 after calculation'',
                  follow_size = None, follow_side = None, order_result = None\<rparr>, w2)
           else execute_follow tr ev sz sd w2)"
    if "should_follow tr ev w0 = (Inr (True, why), w)" for w0 why
    using that
    by (simp add: on_wallet_event_def catch_all_def bind_def return_def never_raises_def
        split: prod.splits sum.splits)
  have c: "execute_follow tr ev sz sd w1 =
       (case on_trader (t_place_market_order tr (symbol ev) sd sz) w1 of
          (Inl e, w2) \<Rightarrow> (\<lparr>decision = ERROR, reason = str_exn e, follow_size = None,
                           follow_side = None, order_result = None\<rparr>, w2)
        | (Inr res, w2) \<Rightarrow>
            if success res
            then (\<lparr>decision = FOLLOW, reason = ''follow succeeded'', follow_size = Some sz,
                   follow_side = Some sd, order_result = Some res\<rparr>, w2)
            else (\<lparr>decision = ERROR, reason = ''order failed: '' @ str_optional (error res),
                   follow_size = None, follow_side = None, order_result = Some res\<rparr>, w2))" for sz sd
    unfolding execute_follow_cases using ty
    by (simp add: update_position_in_db_open split: prod.splits sum.splits)
  show ?thesis
  proof (cases held)
    case None
    then show ?thesis using a b by simp
  next
    case (Some pos)
    then show ?thesis using a b c by simp
  qed
qed

theorem decrease_follows_half_witness:
  "fst (calculate_follow_params lighter (eth_event DECREASE wallet_a)
          ((engine_on store0 venue_live)
             \<lparr>db_manager := store0\<lparr>db_calls := 2\<rparr>,
              lighter_trader := venue_live\<lparr>requests := [AccountQuery 7]\<rparr>,
              my_balance := 10000, balance_updated_at := 1000, clock_reads := 1\<rparr>)) = Inr (1, SELL)
   \<and> fst (on_wallet_event lighter (eth_event DECREASE wallet_a) (engine_on store0 venue_live)) =
        \<lparr>decision = FOLLOW, reason = ''follow succeeded'', follow_size = Some 1,
          follow_side = Some SELL,
          order_result = Some \<lparr>success = True, order_id = Some ''1001'',
                                tx_hash = Some ''0xfeed'', error = None\<rparr>\<rparr>
   \<and> orders_submitted (lighter_trader (snd (on_wallet_event lighter (eth_event DECREASE wallet_a)
          (engine_on store0 venue_live)))) =
        [\<lparr>req_market_index = 1, req_client_order_index = 1001, req_base_amount = 100000000,
          req_avg_execution_price = 29700, req_is_ask = True, req_reduce_only = False\<rparr>]"
proof -
  let ?ev = "eth_event DECREASE wallet_a"
  let ?init = "engine_on store0 venue_live"
  let ?checked = "?init\<lparr>db_manager := store0\<lparr>db_calls := 2\<rparr>,
              lighter_trader := venue_live\<lparr>requests := [AccountQuery 7]\<rparr>,
              my_balance := 10000, balance_updated_at := 1000, clock_reads := 1\<rparr>"
  let ?read = "?init\<lparr>db_manager := store0\<lparr>db_calls := 2\<rparr>,
              lighter_trader := venue_live\<lparr>requests := [AccountQuery 7, AccountQuery 7]\<rparr>,
              my_balance := 10000, balance_updated_at := 1000, clock_reads := 1\<rparr>"
  let ?held = "\<lparr>market_index = 1, pos_symbol = ''ETH'', pos_side = ''LONG'', pos_size = 2,
                entry_price = 2900, position_value = 5800, unrealized_pnl = 0\<rparr>"
  have ty: "event_type ?ev = DECREASE" by (simp add: eth_event_def)
  have sf: "should_follow lighter ?ev ?init = (Inr (True, ''OK''), ?checked)"
    by (simp add: venue_live_def lighter_eval engine_eval retry_attempts_numeral)
  have ps: "on_trader (t_get_positions lighter) ?checked = (Inr [?held], ?read)"
    by (simp add: venue_live_def lighter_eval engine_eval retry_attempts_numeral)
  have held: "find (\<lambda>pos. upper (pos_symbol pos) = upper (symbol ?ev)) [?held] = Some ?held"
    by (simp add: eth_event_def char_eval)
  have order: "on_trader (t_place_market_order lighter (symbol ?ev) SELL 1) ?read =
      (Inr \<lparr>success = True, order_id = Some ''1001'', tx_hash = Some ''0xfeed'', error = None\<rparr>,
       ?read\<lparr>lighter_trader := venue_live
          \<lparr>order_counter := 1001, signer_client := True,
           requests := [AccountQuery 7, AccountQuery 7, OrderBookQuery 1,
             CreateMarketOrder \<lparr>req_market_index = 1, req_client_order_index = 1001,
               req_base_amount = 100000000, req_avg_execution_price = 29700,
               req_is_ask = True, req_reduce_only = False\<rparr>]\<rparr>\<rparr>)"
    by (simp add: venue_live_def lighter_eval engine_eval retry_attempts_numeral)
  from decrease_follows_half [OF ty ps held] sf order
  show ?thesis
    by (simp add: orders_submitted_def)
qed

subsection \<open>The entry point always answers\<close>




































end
